theory Spec2Isabelle
  imports Main "HOL-Library.Word" "HOL-Library.Signed_Division"
begin

unbundle bit_operations_syntax

section \<open>Data model of \<^verbatim>\<open>c10/core/SymInt.cpp\<close>\<close>

text \<open>
  A \<^verbatim>\<open>SymInt\<close> is one 64-bit word \<^verbatim>\<open>data_\<close>. A \<^verbatim>\<open>SymIntNode\<close> is an intrusive
  pointer to a \<^verbatim>\<open>SymIntNodeImpl\<close>; it is modelled by the address it holds, the null
  handle being address 0.
\<close>

type_synonym int64_t = "64 word"
type_synonym SymIntNode = "64 word"

definition nullptr :: SymIntNode where
  "nullptr = 0"

record SymInt =
  data :: int64_t

text \<open>
  The failures of the source: \<^verbatim>\<open>TORCH_CHECK\<close>, \<^verbatim>\<open>TORCH_INTERNAL_ASSERT\<close> with its
  message, a call through a null handle, the native division trap (division by zero and
  the overflowing quotient, both undefined in C++), and whatever a node operation throws.
\<close>

datatype error =
    TorchCheckFailed
  | InternalAssertFailed string
  | NullDereference
  | DivisionTrap
  | NodeError string

text \<open>
  The declarations of \<^verbatim>\<open>c10/core/SymInt.h\<close> that \<^verbatim>\<open>SymInt.cpp\<close> uses: the build
  flag, the two tag constants, the converting constructor \<^verbatim>\<open>SymInt(int64_t)\<close> and the
  pointer decoder. The header is not part of the sources at hand, so they are parameters
  of every function below.
\<close>

record SymInt_h =
  C10_MOBILE :: bool
  MASK :: "64 word"
  IS_SYM :: "64 word"
  SymInt_of :: "int64_t \<Rightarrow> error + SymInt"
  toSymIntNodeImplUnowned :: "SymInt \<Rightarrow> SymIntNode"

text \<open>
  The virtual operations of \<^verbatim>\<open>SymIntNodeImpl\<close> that the source calls. The binary ones
  share a signature and are told apart by their name. Each acts on the external
  expression graph \<open>'g\<close> and may throw.
\<close>

datatype node_method =
  M_add | M_sub | M_mul | M_floordiv | M_mod | M_eq | M_lt | M_le | M_gt | M_ge

record 'g SymIntNodeImpl =
  node_wrap :: "SymIntNode \<Rightarrow> int64_t \<Rightarrow> 'g \<Rightarrow> (error + SymIntNode) \<times> 'g"
  node_binary :: "node_method \<Rightarrow> SymIntNode \<Rightarrow> SymIntNode \<Rightarrow> 'g \<Rightarrow> (error + SymIntNode) \<times> 'g"
  node_bool :: "SymIntNode \<Rightarrow> 'g \<Rightarrow> (error + bool) \<times> 'g"
  node_guard_int :: "SymIntNode \<Rightarrow> string \<Rightarrow> int64_t \<Rightarrow> 'g \<Rightarrow> (error + int64_t) \<times> 'g"

text \<open>The node operations invoked so far, with receiver and arguments.\<close>

datatype node_call =
    Call_wrap SymIntNode int64_t
  | Call_binary node_method SymIntNode SymIntNode
  | Call_bool SymIntNode
  | Call_guard_int SymIntNode string int64_t

text \<open>
  The program state: the reference count of every node, the external graph, and the
  trace of node operations. The counts move through handles only: a node operation acts
  on the graph and hands out a handle, which then owns one unit.
\<close>

record 'g state =
  refcount :: "SymIntNode \<Rightarrow> nat"
  graph :: 'g
  calls :: "node_call list"

section \<open>Exceptions and scopes\<close>

type_synonym ('a, 'g) M = "'g state \<Rightarrow> (error + 'a) \<times> 'g state"

definition returnM :: "'a \<Rightarrow> ('a, 'g) M" where
  "returnM x = (\<lambda>st. (Inr x, st))"

definition throwM :: "error \<Rightarrow> ('a, 'g) M" where
  "throwM e = (\<lambda>st. (Inl e, st))"

definition bindM :: "('a, 'g) M \<Rightarrow> ('a \<Rightarrow> ('b, 'g) M) \<Rightarrow> ('b, 'g) M" where
  "bindM m f = (\<lambda>st. case m st of (Inl e, st') \<Rightarrow> (Inl e, st') | (Inr x, st') \<Rightarrow> f x st')"

definition liftM :: "error + 'a \<Rightarrow> ('a, 'g) M" where
  "liftM r = (\<lambda>st. (r, st))"

section \<open>Reference counting\<close>

text \<open>
  Modelled from the spec: \<^verbatim>\<open>c10::intrusive_ptr\<close> (\<^verbatim>\<open>c10/util/intrusive_ptr.h\<close>) is
  missing. A handle holds one unit of the referent's reference count: taking a handle
  increments the count by one, destroying it decrements the count by one, and the null
  handle holds nothing (sections 3 and 4.2 of the specification).
\<close>

definition retain :: "SymIntNode \<Rightarrow> 'g state \<Rightarrow> 'g state" where
  "retain p st =
     (if p = nullptr then st else st\<lparr>refcount := (refcount st)(p := refcount st p + 1)\<rparr>)"

definition release :: "SymIntNode \<Rightarrow> 'g state \<Rightarrow> 'g state" where
  "release p st =
     (if p = nullptr then st else st\<lparr>refcount := (refcount st)(p := refcount st p - 1)\<rparr>)"

text \<open>
  Modelled from the spec: \<^verbatim>\<open>intrusive_ptr::reclaim_copy\<close> is missing. It makes a new
  handle that shares ownership with the referent of a raw pointer.
\<close>

definition reclaim_copy :: "SymIntNode \<Rightarrow> (SymIntNode, 'g) M" where
  "reclaim_copy p = (\<lambda>st. (Inr p, retain p st))"

text \<open>
  The handles in \<open>hs\<close> are locals of the block \<open>m\<close>: their destructors run when the block
  is left, by \<^verbatim>\<open>return\<close> and by an exception alike.
\<close>

definition scope :: "SymIntNode list \<Rightarrow> ('a, 'g) M \<Rightarrow> ('a, 'g) M" where
  "scope hs m = (\<lambda>st. case m st of (r, st') \<Rightarrow> (r, fold release hs st'))"

text \<open>The destructors that run only when \<open>m\<close> throws (the locals alive at that point).\<close>

definition unwinding :: "SymIntNode list \<Rightarrow> ('a, 'g) M \<Rightarrow> ('a, 'g) M" where
  "unwinding hs m =
     (\<lambda>st. case m st of
        (Inl e, st') \<Rightarrow> (Inl e, fold release hs st')
      | (Inr x, st') \<Rightarrow> (Inr x, st'))"

section \<open>The tagged word\<close>

text \<open>
  Modelled from the spec: \<^verbatim>\<open>SymInt::is_symbolic\<close> is declared in the missing header. It
  tests the reserved tag bits of the word, and is the constant \<^verbatim>\<open>false\<close> on the mobile
  build (also stated by the comment above the mobile stubs of the source).
\<close>

definition is_symbolic :: "SymInt_h \<Rightarrow> SymInt \<Rightarrow> bool" where
  "is_symbolic H s = (\<not> C10_MOBILE H \<and> (MASK H AND data s) = IS_SYM H)"

text \<open>
  Modelled from the spec: \<^verbatim>\<open>SymInt::as_int_unchecked\<close> is declared in the missing header
  and returns the payload of a concrete value, which is the word itself
  (\<^verbatim>\<open>guard_int\<close> returns \<^verbatim>\<open>data_\<close> for a concrete value).
\<close>

definition as_int_unchecked :: "SymInt \<Rightarrow> int64_t" where
  "as_int_unchecked s = data s"

text \<open>The constructor \<^verbatim>\<open>SymInt(UNCHECKED, d)\<close> stores the word as it is.\<close>

definition SymInt_unchecked :: "int64_t \<Rightarrow> SymInt" where
  "SymInt_unchecked d = \<lparr>data = d\<rparr>"

section \<open>Calls of node operations\<close>

text \<open>
  A call \<^verbatim>\<open>p->op(...)\<close>: undefined through a null handle; otherwise the operation runs
  on the graph, the call is recorded, and a returned handle owns one unit of its
  referent.
\<close>

definition call_wrap :: "'g SymIntNodeImpl \<Rightarrow> SymIntNode \<Rightarrow> int64_t \<Rightarrow> (SymIntNode, 'g) M" where
  "call_wrap ops p n =
     (\<lambda>st. if p = nullptr then (Inl NullDereference, st)
        else case node_wrap ops p n (graph st) of
          (r, g) \<Rightarrow>
            (let st' = st\<lparr>graph := g, calls := calls st @ [Call_wrap p n]\<rparr>
             in case r of Inl e \<Rightarrow> (Inl e, st') | Inr h \<Rightarrow> (Inr h, retain h st')))"

definition call_binary ::
  "'g SymIntNodeImpl \<Rightarrow> node_method \<Rightarrow> SymIntNode \<Rightarrow> SymIntNode \<Rightarrow> (SymIntNode, 'g) M" where
  "call_binary ops m p q =
     (\<lambda>st. if p = nullptr then (Inl NullDereference, st)
        else case node_binary ops m p q (graph st) of
          (r, g) \<Rightarrow>
            (let st' = st\<lparr>graph := g, calls := calls st @ [Call_binary m p q]\<rparr>
             in case r of Inl e \<Rightarrow> (Inl e, st') | Inr h \<Rightarrow> (Inr h, retain h st')))"

definition call_bool :: "'g SymIntNodeImpl \<Rightarrow> SymIntNode \<Rightarrow> (bool, 'g) M" where
  "call_bool ops p =
     (\<lambda>st. if p = nullptr then (Inl NullDereference, st)
        else case node_bool ops p (graph st) of
          (r, g) \<Rightarrow> (r, st\<lparr>graph := g, calls := calls st @ [Call_bool p]\<rparr>))"

definition call_guard_int ::
  "'g SymIntNodeImpl \<Rightarrow> SymIntNode \<Rightarrow> string \<Rightarrow> int64_t \<Rightarrow> (int64_t, 'g) M" where
  "call_guard_int ops p file line =
     (\<lambda>st. if p = nullptr then (Inl NullDereference, st)
        else case node_guard_int ops p file line (graph st) of
          (r, g) \<Rightarrow> (r, st\<lparr>graph := g, calls := calls st @ [Call_guard_int p file line]\<rparr>))"

section \<open>Native signed arithmetic\<close>

text \<open>
  \<^verbatim>\<open>a / b\<close> and \<^verbatim>\<open>a % b\<close> on \<^verbatim>\<open>int64_t\<close>: the quotient is truncated towards zero and
  the remainder has the sign of the dividend. Division by zero and
  \<^verbatim>\<open>INT64_MIN / -1\<close> are undefined and trap on the machine.
\<close>

definition INT64_MIN :: int64_t where
  "INT64_MIN = push_bit 63 1"

definition native_div :: "int64_t \<Rightarrow> int64_t \<Rightarrow> error + int64_t" where
  "native_div x y =
     (if y = 0 \<or> (x = INT64_MIN \<and> y = - 1) then Inl DivisionTrap
      else Inr (word_of_int (sint x sdiv sint y)))"

definition native_mod :: "int64_t \<Rightarrow> int64_t \<Rightarrow> error + int64_t" where
  "native_mod x y =
     (if y = 0 \<or> (x = INT64_MIN \<and> y = - 1) then Inl DivisionTrap
      else Inr (word_of_int (sint x smod sint y)))"

definition construct :: "SymInt_h \<Rightarrow> error + int64_t \<Rightarrow> error + SymInt" where
  "construct H r = (case r of Inl e \<Rightarrow> Inl e | Inr d \<Rightarrow> SymInt_of H d)"

section \<open>The functions of \<^verbatim>\<open>SymInt.cpp\<close>\<close>

text \<open>
  Conventions. A \<^verbatim>\<open>SymInt\<close> passed by value is a copy that lives for the call; by
  Invariant D of the specification its construction and destruction retain and release
  the referent once each, so such a parameter is passed as a value and the callee cannot
  change the caller's object. A \<^verbatim>\<open>SymIntNode\<close> passed by value hands its unit of
  ownership to the callee.
\<close>

definition mobile_msg :: string where
  "mobile_msg = ''SymInts aren't available on mobile''"

text \<open>
  \<^verbatim>\<open>SymInt::toSymIntNodeImpl\<close>: \<^verbatim>\<open>TORCH_CHECK(is_symbolic())\<close>, then
  \<^verbatim>\<open>reclaim_copy(toSymIntNodeImplUnowned())\<close>; the mobile stub asserts.
\<close>

definition toSymIntNodeImpl :: "SymInt_h \<Rightarrow> SymInt \<Rightarrow> (SymIntNode, 'g) M" where
  "toSymIntNodeImpl H this =
     (if C10_MOBILE H then throwM (InternalAssertFailed mobile_msg)
      else if \<not> is_symbolic H this then throwM TorchCheckFailed
      else reclaim_copy (toSymIntNodeImplUnowned H this))"

text \<open>
  \<^verbatim>\<open>SymInt::toSymInt\<close>: the handle is released into a raw pointer, which is masked and
  tagged. The mobile stub asserts, and the parameter it was given is destroyed.
\<close>

definition toSymInt :: "SymInt_h \<Rightarrow> SymIntNode \<Rightarrow> (SymInt, 'g) M" where
  "toSymInt H sin_sp =
     (if C10_MOBILE H then scope [sin_sp] (throwM (InternalAssertFailed mobile_msg))
      else
        (let ptr = sin_sp;
             rep = (ptr AND NOT (MASK H)) OR IS_SYM H
         in returnM (SymInt_unchecked rep)))"

text \<open>
  Modelled from the spec: the destructor of \<^verbatim>\<open>SymInt\<close> is declared in the missing
  header. Destroying a symbolic value decrements the referent's count once
  (Invariant D).
\<close>

definition destroy_SymInt :: "SymInt_h \<Rightarrow> SymInt \<Rightarrow> 'g state \<Rightarrow> 'g state" where
  "destroy_SymInt H s st =
     (if is_symbolic H s then release (toSymIntNodeImplUnowned H s) st else st)"

text \<open>
  The statement \<^verbatim>\<open>a_.toSymInt(a);\<close> of \<^verbatim>\<open>normalize_symints\<close>. \<^verbatim>\<open>toSymInt\<close> is a static
  member: the receiver is not used, the argument is a copy of the handle, and the
  \<^verbatim>\<open>SymInt\<close> that is returned is a temporary, destroyed at the end of the statement.
\<close>

definition discarded_toSymInt :: "SymInt_h \<Rightarrow> SymIntNode \<Rightarrow> (unit, 'g) M" where
  "discarded_toSymInt H h =
     bindM (reclaim_copy h) (\<lambda>h'.
     bindM (toSymInt H h') (\<lambda>tmp st. (Inr (), destroy_SymInt H tmp st)))"

text \<open>
  \<^verbatim>\<open>normalize_symints\<close>. Its two \<^verbatim>\<open>SymInt\<close> parameters are passed by value. The result
  holds the array that is returned and, for observation, the caller's two argument
  objects once the call has returned.
\<close>

record normalized =
  res :: "SymIntNode \<times> SymIntNode"
  a_after :: SymInt
  b_after :: SymInt

definition normalize_symints ::
  "SymInt_h \<Rightarrow> 'g SymIntNodeImpl \<Rightarrow> SymInt \<Rightarrow> SymInt \<Rightarrow> (normalized, 'g) M" where
  "normalize_symints H ops a_arg b_arg =
     (if C10_MOBILE H then throwM (InternalAssertFailed mobile_msg)
      else
        bindM (if is_symbolic H a_arg then toSymIntNodeImpl H a_arg else returnM nullptr) (\<lambda>a0.
        bindM (unwinding [a0]
                 (if is_symbolic H b_arg then toSymIntNodeImpl H b_arg else returnM nullptr)) (\<lambda>b0.
        let common = (if a0 \<noteq> nullptr then a0 else b0) in
        bindM (unwinding [b0, a0]
                 (if a0 = nullptr
                  then bindM (call_wrap ops common (as_int_unchecked a_arg)) (\<lambda>a1.
                       bindM (unwinding [a1] (discarded_toSymInt H a1)) (\<lambda>_. returnM a1))
                  else returnM a0)) (\<lambda>a1.
        bindM (unwinding [b0, a1]
                 (if b0 = nullptr
                  then bindM (call_wrap ops common (as_int_unchecked b_arg)) (\<lambda>b1.
                       bindM (unwinding [b1] (discarded_toSymInt H b1)) (\<lambda>_. returnM b1))
                  else returnM b0)) (\<lambda>b1.
        returnM \<lparr>res = (a1, b1), a_after = a_arg, b_after = b_arg\<rparr>)))))"

text \<open>\<^verbatim>\<open>SymInt::guard_int\<close>.\<close>

definition guard_int :: "SymInt_h \<Rightarrow> 'g SymIntNodeImpl \<Rightarrow> SymInt \<Rightarrow> string \<Rightarrow> int64_t \<Rightarrow> (int64_t, 'g) M" where
  "guard_int H ops this file line =
     (if \<not> is_symbolic H this then returnM (data this)
      else bindM (toSymIntNodeImpl H this) (\<lambda>a. scope [a] (call_guard_int ops a file line)))"

text \<open>
  The symbolic path of the arithmetic operators: \<^verbatim>\<open>res\<close> lives until the function
  returns, and the handle the node returns is moved into \<^verbatim>\<open>toSymInt\<close>.
\<close>

definition symbolic_arith ::
  "SymInt_h \<Rightarrow> 'g SymIntNodeImpl \<Rightarrow> node_method \<Rightarrow> SymInt \<Rightarrow> SymInt \<Rightarrow> (SymInt, 'g) M" where
  "symbolic_arith H ops m this sci =
     bindM (normalize_symints H ops this sci) (\<lambda>r.
       scope [snd (res r), fst (res r)]
         (bindM (call_binary ops m (fst (res r)) (snd (res r))) (toSymInt H)))"

text \<open>
  The symbolic path of the comparisons: the handle the node returns is a temporary,
  destroyed once \<^verbatim>\<open>bool_()\<close> has been read.
\<close>

definition symbolic_compare ::
  "SymInt_h \<Rightarrow> 'g SymIntNodeImpl \<Rightarrow> node_method \<Rightarrow> SymInt \<Rightarrow> SymInt \<Rightarrow> (bool, 'g) M" where
  "symbolic_compare H ops m this sci =
     bindM (normalize_symints H ops this sci) (\<lambda>r.
       scope [snd (res r), fst (res r)]
         (bindM (call_binary ops m (fst (res r)) (snd (res r))) (\<lambda>h.
            scope [h] (call_bool ops h))))"

definition operator_add :: "SymInt_h \<Rightarrow> 'g SymIntNodeImpl \<Rightarrow> SymInt \<Rightarrow> SymInt \<Rightarrow> (SymInt, 'g) M" where
  "operator_add H ops this sci =
     (if \<not> is_symbolic H this \<and> \<not> is_symbolic H sci
      then liftM (SymInt_of H (data this + data sci))
      else symbolic_arith H ops M_add this sci)"

definition operator_sub :: "SymInt_h \<Rightarrow> 'g SymIntNodeImpl \<Rightarrow> SymInt \<Rightarrow> SymInt \<Rightarrow> (SymInt, 'g) M" where
  "operator_sub H ops this sci =
     (if \<not> is_symbolic H this \<and> \<not> is_symbolic H sci
      then liftM (SymInt_of H (data this - data sci))
      else symbolic_arith H ops M_sub this sci)"

definition operator_mul :: "SymInt_h \<Rightarrow> 'g SymIntNodeImpl \<Rightarrow> SymInt \<Rightarrow> SymInt \<Rightarrow> (SymInt, 'g) M" where
  "operator_mul H ops this sci =
     (if \<not> is_symbolic H this \<and> \<not> is_symbolic H sci
      then liftM (SymInt_of H (data this * data sci))
      else symbolic_arith H ops M_mul this sci)"

definition operator_div :: "SymInt_h \<Rightarrow> 'g SymIntNodeImpl \<Rightarrow> SymInt \<Rightarrow> SymInt \<Rightarrow> (SymInt, 'g) M" where
  "operator_div H ops this sci =
     (if \<not> is_symbolic H this \<and> \<not> is_symbolic H sci
      then liftM (construct H (native_div (data this) (data sci)))
      else symbolic_arith H ops M_floordiv this sci)"

definition operator_mod :: "SymInt_h \<Rightarrow> 'g SymIntNodeImpl \<Rightarrow> SymInt \<Rightarrow> SymInt \<Rightarrow> (SymInt, 'g) M" where
  "operator_mod H ops this sci =
     (if \<not> is_symbolic H this \<and> \<not> is_symbolic H sci
      then liftM (construct H (native_mod (data this) (data sci)))
      else symbolic_arith H ops M_mod this sci)"

definition operator_eq :: "SymInt_h \<Rightarrow> 'g SymIntNodeImpl \<Rightarrow> SymInt \<Rightarrow> SymInt \<Rightarrow> (bool, 'g) M" where
  "operator_eq H ops this sci =
     (if \<not> is_symbolic H this \<and> \<not> is_symbolic H sci
      then returnM (data this = data sci)
      else symbolic_compare H ops M_eq this sci)"

definition operator_ne :: "SymInt_h \<Rightarrow> 'g SymIntNodeImpl \<Rightarrow> SymInt \<Rightarrow> SymInt \<Rightarrow> (bool, 'g) M" where
  "operator_ne H ops this sci = bindM (operator_eq H ops this sci) (\<lambda>r. returnM (\<not> r))"

definition operator_lt :: "SymInt_h \<Rightarrow> 'g SymIntNodeImpl \<Rightarrow> SymInt \<Rightarrow> SymInt \<Rightarrow> (bool, 'g) M" where
  "operator_lt H ops this sci =
     (if \<not> is_symbolic H this \<and> \<not> is_symbolic H sci
      then returnM (data this <s data sci)
      else symbolic_compare H ops M_lt this sci)"

definition operator_le :: "SymInt_h \<Rightarrow> 'g SymIntNodeImpl \<Rightarrow> SymInt \<Rightarrow> SymInt \<Rightarrow> (bool, 'g) M" where
  "operator_le H ops this sci =
     (if \<not> is_symbolic H this \<and> \<not> is_symbolic H sci
      then returnM (data this \<le>s data sci)
      else symbolic_compare H ops M_le this sci)"

definition operator_gt :: "SymInt_h \<Rightarrow> 'g SymIntNodeImpl \<Rightarrow> SymInt \<Rightarrow> SymInt \<Rightarrow> (bool, 'g) M" where
  "operator_gt H ops this sci =
     (if \<not> is_symbolic H this \<and> \<not> is_symbolic H sci
      then returnM (data sci <s data this)
      else symbolic_compare H ops M_gt this sci)"

definition operator_ge :: "SymInt_h \<Rightarrow> 'g SymIntNodeImpl \<Rightarrow> SymInt \<Rightarrow> SymInt \<Rightarrow> (bool, 'g) M" where
  "operator_ge H ops this sci =
     (if \<not> is_symbolic H this \<and> \<not> is_symbolic H sci
      then returnM (data sci \<le>s data this)
      else symbolic_compare H ops M_ge this sci)"

text \<open>
  \<^verbatim>\<open>SymInt::operator*=\<close> is \<^verbatim>\<open>*this = *this * sci\<close>; the value returned here is the
  receiver after the assignment. Modelled from the spec: the assignment operator of
  \<^verbatim>\<open>SymInt\<close> is declared in the missing header. The value that the receiver held is
  destroyed (Invariant D) and the product takes its place.
\<close>

definition operator_mul_assign ::
  "SymInt_h \<Rightarrow> 'g SymIntNodeImpl \<Rightarrow> SymInt \<Rightarrow> SymInt \<Rightarrow> (SymInt, 'g) M" where
  "operator_mul_assign H ops this sci =
     bindM (operator_mul H ops this sci) (\<lambda>product st. (Inr product, destroy_SymInt H this st))"

text \<open>The overloads with an \<^verbatim>\<open>int64_t\<close> on the right: \<^verbatim>\<open>*this op c10::SymInt(sci)\<close>.\<close>

definition operator_lt_int :: "SymInt_h \<Rightarrow> 'g SymIntNodeImpl \<Rightarrow> SymInt \<Rightarrow> int64_t \<Rightarrow> (bool, 'g) M" where
  "operator_lt_int H ops this sci = bindM (liftM (SymInt_of H sci)) (operator_lt H ops this)"

definition operator_le_int :: "SymInt_h \<Rightarrow> 'g SymIntNodeImpl \<Rightarrow> SymInt \<Rightarrow> int64_t \<Rightarrow> (bool, 'g) M" where
  "operator_le_int H ops this sci = bindM (liftM (SymInt_of H sci)) (operator_le H ops this)"

definition operator_gt_int :: "SymInt_h \<Rightarrow> 'g SymIntNodeImpl \<Rightarrow> SymInt \<Rightarrow> int64_t \<Rightarrow> (bool, 'g) M" where
  "operator_gt_int H ops this sci = bindM (liftM (SymInt_of H sci)) (operator_gt H ops this)"

definition operator_ge_int :: "SymInt_h \<Rightarrow> 'g SymIntNodeImpl \<Rightarrow> SymInt \<Rightarrow> int64_t \<Rightarrow> (bool, 'g) M" where
  "operator_ge_int H ops this sci = bindM (liftM (SymInt_of H sci)) (operator_ge H ops this)"

definition operator_eq_int :: "SymInt_h \<Rightarrow> 'g SymIntNodeImpl \<Rightarrow> SymInt \<Rightarrow> int64_t \<Rightarrow> (bool, 'g) M" where
  "operator_eq_int H ops this sci = bindM (liftM (SymInt_of H sci)) (operator_eq H ops this)"

definition operator_ne_int :: "SymInt_h \<Rightarrow> 'g SymIntNodeImpl \<Rightarrow> SymInt \<Rightarrow> int64_t \<Rightarrow> (bool, 'g) M" where
  "operator_ne_int H ops this sci = bindM (liftM (SymInt_of H sci)) (operator_ne H ops this)"

definition operator_mul_int :: "SymInt_h \<Rightarrow> 'g SymIntNodeImpl \<Rightarrow> SymInt \<Rightarrow> int64_t \<Rightarrow> (SymInt, 'g) M" where
  "operator_mul_int H ops this sci = bindM (liftM (SymInt_of H sci)) (operator_mul H ops this)"

section \<open>A concrete environment\<close>

text \<open>
  Modelled from the spec: an instance of the missing header \<^verbatim>\<open>c10/core/SymInt.h\<close>. The
  tag occupies the top two bits of the word and the pattern \<^verbatim>\<open>10\<close> marks a node
  pointer, so that the non-negative and the small negative integers are concrete and are
  stored as they are; the converting constructor refuses a word that carries the tag of
  a pointer; the pointer is recovered by masking the tag out.
\<close>

definition example_h :: SymInt_h where
  "example_h =
     \<lparr>C10_MOBILE = False,
      MASK = 0xC000000000000000,
      IS_SYM = 0x8000000000000000,
      SymInt_of = (\<lambda>d. if (0xC000000000000000 AND d) = 0x8000000000000000
                        then Inl TorchCheckFailed else Inr \<lparr>data = d\<rparr>),
      toSymIntNodeImplUnowned = (\<lambda>s. data s AND NOT 0xC000000000000000)\<rparr>"

text \<open>
  The same header on the mobile build: \<^verbatim>\<open>is_symbolic\<close> is constantly false there, so
  the check of the converting constructor never fails and every word is accepted.
\<close>

definition mobile_h :: SymInt_h where
  "mobile_h = example_h\<lparr>C10_MOBILE := True, SymInt_of := (\<lambda>d. Inr \<lparr>data = d\<rparr>)\<rparr>"

text \<open>
  A node family for evaluation: every node holds a constant, the graph lists the nodes
  with their constants, and a new node is placed 16 bytes after the last one.
\<close>

type_synonym const_graph = "(SymIntNode \<times> int64_t) list"

definition const_fresh :: "const_graph \<Rightarrow> SymIntNode" where
  "const_fresh g = 0x1000 + 16 * of_nat (length g)"

definition const_eval :: "node_method \<Rightarrow> int64_t \<Rightarrow> int64_t \<Rightarrow> int64_t" where
  "const_eval m x y =
     (case m of
        M_add \<Rightarrow> x + y
      | M_sub \<Rightarrow> x - y
      | M_mul \<Rightarrow> x * y
      | M_floordiv \<Rightarrow> word_of_int (sint x div sint y)
      | M_mod \<Rightarrow> word_of_int (sint x mod sint y)
      | M_eq \<Rightarrow> of_bool (x = y)
      | M_lt \<Rightarrow> of_bool (x <s y)
      | M_le \<Rightarrow> of_bool (x \<le>s y)
      | M_gt \<Rightarrow> of_bool (y <s x)
      | M_ge \<Rightarrow> of_bool (y \<le>s x))"

definition const_ops :: "const_graph SymIntNodeImpl" where
  "const_ops =
     \<lparr>node_wrap = (\<lambda>p n g. (Inr (const_fresh g), g @ [(const_fresh g, n)])),
      node_binary = (\<lambda>m p q g.
         case (map_of g p, map_of g q) of
           (Some x, Some y) \<Rightarrow> (Inr (const_fresh g), g @ [(const_fresh g, const_eval m x y)])
         | _ \<Rightarrow> (Inl (NodeError ''no such node''), g)),
      node_bool = (\<lambda>p g.
         case map_of g p of
           Some x \<Rightarrow> (Inr (x \<noteq> 0), g)
         | None \<Rightarrow> (Inl (NodeError ''no such node''), g)),
      node_guard_int = (\<lambda>p file line g.
         case map_of g p of
           Some x \<Rightarrow> (Inr x, g)
         | None \<Rightarrow> (Inl (NodeError file), g))\<rparr>"

text \<open>
  A state with one node at address \<^verbatim>\<open>0x1000\<close> holding the constant 5 and referenced
  once, and the symbolic value that refers to it.
\<close>

definition example_state :: "const_graph state" where
  "example_state =
     \<lparr>refcount = (\<lambda>_. 0)(0x1000 := 1), graph = [(0x1000, 5)], calls = []\<rparr>"

definition example_sym :: SymInt where
  "example_sym = \<lparr>data = 0x8000000000001000\<rparr>"

section \<open>Properties\<close>

subsection \<open>Basic facts\<close>

lemma example_h_concrete_small:
  "\<not> is_symbolic example_h \<lparr>data = - 7\<rparr>" "\<not> is_symbolic example_h \<lparr>data = 2\<rparr>"
  "\<not> is_symbolic example_h \<lparr>data = 3\<rparr>" "\<not> is_symbolic example_h \<lparr>data = 42\<rparr>"
  by (simp_all add: is_symbolic_def example_h_def)

lemma example_h_concrete_large:
  "\<not> is_symbolic example_h \<lparr>data = 0x4000000000000000\<rparr>" "\<not> is_symbolic example_h \<lparr>data = 4\<rparr>"
  by (simp_all add: is_symbolic_def example_h_def)

lemma example_sym_symbolic: "is_symbolic example_h example_sym"
  by (simp add: is_symbolic_def example_h_def example_sym_def)

lemma example_sym_node: "toSymIntNodeImplUnowned example_h example_sym = 0x1000"
  by (simp add: example_h_def example_sym_def)

lemma release_retain: "release p (retain p st) = st"
  by (simp add: release_def retain_def)

lemma sless_sint: "(x <s y) = (sint x < sint y)" for x y :: int64_t
  by (simp add: word_sless_alt)

lemma sle_sint: "(x \<le>s y) = (sint x \<le> sint y)" for x y :: int64_t
  by (simp add: word_sle_eq)

lemma guard_int_concrete:
  "\<not> is_symbolic H v \<Longrightarrow> guard_int H ops v file line st = (Inr (data v), st)"
  by (simp add: guard_int_def returnM_def)

lemma is_symbolic_not_mobile: "is_symbolic H v \<Longrightarrow> \<not> C10_MOBILE H"
  by (simp add: is_symbolic_def)

lemma toSymIntNodeImpl_symbolic:
  "is_symbolic H v \<Longrightarrow>
   toSymIntNodeImpl H v st = (Inr (toSymIntNodeImplUnowned H v), retain (toSymIntNodeImplUnowned H v) st)"
  by (simp add: toSymIntNodeImpl_def reclaim_copy_def is_symbolic_not_mobile)

lemma guard_int_symbolic:
  assumes "is_symbolic H v" and "toSymIntNodeImplUnowned H v = p" and "p \<noteq> nullptr"
  shows "guard_int H ops v file line st =
     (fst (node_guard_int ops p file line (graph st)),
      st\<lparr>graph := snd (node_guard_int ops p file line (graph st)),
         calls := calls st @ [Call_guard_int p file line]\<rparr>)"
  using assms
  by (simp add: guard_int_def bindM_def toSymIntNodeImpl_symbolic scope_def call_guard_int_def
      retain_def release_def split: prod.splits)

lemma retain_fields: "graph (retain p st) = graph st" "calls (retain p st) = calls st"
  by (simp_all add: retain_def)

lemma release_fields: "graph (release p st) = graph st" "calls (release p st) = calls st"
  by (simp_all add: release_def)

lemma destroy_SymInt_fields:
  "graph (destroy_SymInt H s st) = graph st" "calls (destroy_SymInt H s st) = calls st"
  by (simp_all add: destroy_SymInt_def release_fields)

lemma discarded_toSymInt_eq:
  "\<not> C10_MOBILE H \<Longrightarrow>
   discarded_toSymInt H h st =
     (Inr (), destroy_SymInt H (SymInt_unchecked ((h AND NOT (MASK H)) OR IS_SYM H)) (retain h st))"
  by (simp add: discarded_toSymInt_def bindM_def reclaim_copy_def toSymInt_def returnM_def Let_def)

lemma call_wrap_returns:
  "p \<noteq> nullptr \<Longrightarrow> node_wrap ops p n (graph st) = (Inr h, g) \<Longrightarrow>
   call_wrap ops p n st = (Inr h, retain h (st\<lparr>graph := g, calls := calls st @ [Call_wrap p n]\<rparr>))"
  by (simp add: call_wrap_def Let_def)

lemma call_wrap_throws:
  "p \<noteq> nullptr \<Longrightarrow> node_wrap ops p n (graph st) = (Inl e, g) \<Longrightarrow>
   call_wrap ops p n st = (Inl e, st\<lparr>graph := g, calls := calls st @ [Call_wrap p n]\<rparr>)"
  by (simp add: call_wrap_def Let_def)

lemma normalize_symints_both_symbolic:
  assumes "is_symbolic H x" and "is_symbolic H y"
    and "toSymIntNodeImplUnowned H x \<noteq> nullptr" and "toSymIntNodeImplUnowned H y \<noteq> nullptr"
  shows "normalize_symints H ops x y st =
    (Inr \<lparr>res = (toSymIntNodeImplUnowned H x, toSymIntNodeImplUnowned H y), a_after = x, b_after = y\<rparr>,
     retain (toSymIntNodeImplUnowned H y) (retain (toSymIntNodeImplUnowned H x) st))"
  using assms
  by (simp add: normalize_symints_def is_symbolic_not_mobile toSymIntNodeImpl_symbolic
      bindM_def unwinding_def returnM_def)

lemma normalize_symints_wrap_right:
  assumes "is_symbolic H x" and "\<not> is_symbolic H y"
    and "toSymIntNodeImplUnowned H x = pa" and "pa \<noteq> nullptr"
    and "node_wrap ops pa (data y) (graph st) = (Inr h, g)"
  shows "normalize_symints H ops x y st =
    (Inr \<lparr>res = (pa, h), a_after = x, b_after = y\<rparr>,
     destroy_SymInt H (SymInt_unchecked ((h AND NOT (MASK H)) OR IS_SYM H))
       (retain h (retain h ((retain pa st)\<lparr>graph := g, calls := calls st @ [Call_wrap pa (data y)]\<rparr>))))"
proof -
  have nm: "\<not> C10_MOBILE H" using assms(1) by (rule is_symbolic_not_mobile)
  have w: "call_wrap ops pa (data y) (retain pa st) =
      (Inr h, retain h ((retain pa st)\<lparr>graph := g, calls := calls st @ [Call_wrap pa (data y)]\<rparr>))"
    using call_wrap_returns [of pa ops "data y" "retain pa st" h g] assms(4,5)
    by (simp add: retain_fields)
  show ?thesis
    using assms(1-4) nm
    by (simp add: normalize_symints_def toSymIntNodeImpl_symbolic bindM_def unwinding_def
        returnM_def as_int_unchecked_def w discarded_toSymInt_eq)
qed

lemma normalize_symints_wrap_right_throws:
  assumes "is_symbolic H x" and "\<not> is_symbolic H y"
    and "toSymIntNodeImplUnowned H x = pa" and "pa \<noteq> nullptr"
    and "node_wrap ops pa (data y) (graph st) = (Inl e, g)"
  shows "normalize_symints H ops x y st =
    (Inl e, st\<lparr>graph := g, calls := calls st @ [Call_wrap pa (data y)]\<rparr>)"
proof -
  have nm: "\<not> C10_MOBILE H" using assms(1) by (rule is_symbolic_not_mobile)
  have w: "call_wrap ops pa (data y) (retain pa st) =
      (Inl e, (retain pa st)\<lparr>graph := g, calls := calls st @ [Call_wrap pa (data y)]\<rparr>)"
    using call_wrap_throws [of pa ops "data y" "retain pa st" e g] assms(4,5)
    by (simp add: retain_fields)
  show ?thesis
    using assms(1-4) nm
    by (simp add: normalize_symints_def toSymIntNodeImpl_symbolic bindM_def unwinding_def
        returnM_def as_int_unchecked_def w)
       (simp add: retain_def release_def nullptr_def)
qed

lemma normalize_symints_wrap_left:
  assumes "\<not> is_symbolic H x" and "is_symbolic H y"
    and "toSymIntNodeImplUnowned H y = pb" and "pb \<noteq> nullptr"
    and "node_wrap ops pb (data x) (graph st) = (Inr h, g)"
  shows "normalize_symints H ops x y st =
    (Inr \<lparr>res = (h, pb), a_after = x, b_after = y\<rparr>,
     destroy_SymInt H (SymInt_unchecked ((h AND NOT (MASK H)) OR IS_SYM H))
       (retain h (retain h ((retain pb st)\<lparr>graph := g, calls := calls st @ [Call_wrap pb (data x)]\<rparr>))))"
proof -
  have nm: "\<not> C10_MOBILE H" using assms(2) by (rule is_symbolic_not_mobile)
  have w: "call_wrap ops pb (data x) (retain pb st) =
      (Inr h, retain h ((retain pb st)\<lparr>graph := g, calls := calls st @ [Call_wrap pb (data x)]\<rparr>))"
    using call_wrap_returns [of pb ops "data x" "retain pb st" h g] assms(4,5)
    by (simp add: retain_fields)
  show ?thesis
    using assms(1-4) nm
    by (simp add: normalize_symints_def toSymIntNodeImpl_symbolic bindM_def unwinding_def
        returnM_def as_int_unchecked_def w discarded_toSymInt_eq)
qed

lemma example_wrap:
  "node_wrap const_ops 0x1000 3 (graph example_state) = (Inr 0x1010, [(0x1000, 5), (0x1010, 3)])"
  by (simp add: const_ops_def example_state_def const_fresh_def)

lemma example_normalize_left:
  "normalize_symints example_h const_ops \<lparr>data = 3\<rparr> example_sym example_state =
     (Inr \<lparr>res = (0x1010, 0x1000), a_after = \<lparr>data = 3\<rparr>, b_after = example_sym\<rparr>,
      destroy_SymInt example_h
        (SymInt_unchecked ((0x1010 AND NOT (MASK example_h)) OR IS_SYM example_h))
        (retain 0x1010 (retain 0x1010
          ((retain 0x1000 example_state)
             \<lparr>graph := [(0x1000, 5), (0x1010, 3)],
              calls := calls example_state @ [Call_wrap 0x1000 (data \<lparr>data = 3\<rparr>)]\<rparr>))))"
proof -
  have n: "(0x1000 :: SymIntNode) \<noteq> nullptr" by (simp add: nullptr_def)
  have w: "node_wrap const_ops 0x1000 (data \<lparr>data = 3\<rparr>) (graph example_state) =
      (Inr 0x1010, [(0x1000, 5), (0x1010, 3)])"
    by (simp add: example_wrap)
  show ?thesis
    by (rule normalize_symints_wrap_left
        [OF example_h_concrete_small(3) example_sym_symbolic example_sym_node n w])
qed

lemma symbolic_arith_value:
  assumes "normalize_symints H ops x y st = (Inr r, st1)"
    and "fst (res r) \<noteq> nullptr"
    and "node_binary ops m (fst (res r)) (snd (res r)) (graph st1) = (Inr h, g)"
    and "\<not> C10_MOBILE H"
  shows "fst (symbolic_arith H ops m x y st) =
           Inr (SymInt_unchecked ((h AND NOT (MASK H)) OR IS_SYM H))"
  using assms
  by (simp add: symbolic_arith_def bindM_def scope_def call_binary_def Let_def toSymInt_def
      returnM_def)

lemma discarded_toSymInt_no_effect:
  assumes "is_symbolic H (SymInt_unchecked ((h AND NOT (MASK H)) OR IS_SYM H))"
    and "toSymIntNodeImplUnowned H (SymInt_unchecked ((h AND NOT (MASK H)) OR IS_SYM H)) = h"
  shows "discarded_toSymInt H h st = (Inr (), st)"
  using assms is_symbolic_not_mobile [OF assms(1)]
  by (simp add: discarded_toSymInt_eq destroy_SymInt_def release_retain)

lemma frame_balance_arith:
  "release h (release p (retain k ((retain h ((retain p st)\<lparr>graph := g, calls := c1\<rparr>))
      \<lparr>graph := g', calls := c2\<rparr>))) =
   retain k (st\<lparr>graph := g', calls := c2\<rparr>)"
  by (auto simp: retain_def release_def fun_eq_iff)

lemma frame_balance_throw:
  "release h (release p ((retain h ((retain p st)\<lparr>graph := g, calls := c1\<rparr>))
      \<lparr>graph := g', calls := c2\<rparr>)) =
   st\<lparr>graph := g', calls := c2\<rparr>"
  by (auto simp: retain_def release_def fun_eq_iff)

lemma frame_balance_compare:
  "release h (release p (release k ((retain k ((retain h ((retain p st)\<lparr>graph := g, calls := c1\<rparr>))
      \<lparr>graph := g', calls := c2\<rparr>))\<lparr>graph := g'', calls := c3\<rparr>))) =
   st\<lparr>graph := g'', calls := c3\<rparr>"
  by (auto simp: retain_def release_def fun_eq_iff)

lemma frame_balance_arith':
  "release p (release h (retain k ((retain h ((retain p st)\<lparr>graph := g, calls := c1\<rparr>))
      \<lparr>graph := g', calls := c2\<rparr>))) =
   retain k (st\<lparr>graph := g', calls := c2\<rparr>)"
  by (auto simp: retain_def release_def fun_eq_iff)

lemma frame_balance_throw':
  "release p (release h ((retain h ((retain p st)\<lparr>graph := g, calls := c1\<rparr>))
      \<lparr>graph := g', calls := c2\<rparr>)) =
   st\<lparr>graph := g', calls := c2\<rparr>"
  by (auto simp: retain_def release_def fun_eq_iff)

lemma frame_balance_compare':
  "release p (release h (release k ((retain k ((retain h ((retain p st)\<lparr>graph := g, calls := c1\<rparr>))
      \<lparr>graph := g', calls := c2\<rparr>))\<lparr>graph := g'', calls := c3\<rparr>))) =
   st\<lparr>graph := g'', calls := c3\<rparr>"
  by (auto simp: retain_def release_def fun_eq_iff)

lemma null_handle: "retain nullptr st = st" "release nullptr st = st"
  by (simp_all add: retain_def release_def)

lemma normalize_symints_left_clean:
  assumes "\<not> is_symbolic H c" and "is_symbolic H s"
    and "toSymIntNodeImplUnowned H s = p" and "p \<noteq> nullptr"
    and "node_wrap ops p (data c) (graph st) = (Inr h, g)"
    and "is_symbolic H (SymInt_unchecked ((h AND NOT (MASK H)) OR IS_SYM H))"
    and "toSymIntNodeImplUnowned H (SymInt_unchecked ((h AND NOT (MASK H)) OR IS_SYM H)) = h"
  shows "normalize_symints H ops c s st =
    (Inr \<lparr>res = (h, p), a_after = c, b_after = s\<rparr>,
     retain h ((retain p st)\<lparr>graph := g, calls := calls st @ [Call_wrap p (data c)]\<rparr>))"
  using normalize_symints_wrap_left [OF assms(1-5)] assms(6,7)
  by (simp add: destroy_SymInt_def release_retain)

lemma normalize_symints_right_clean:
  assumes "\<not> is_symbolic H c" and "is_symbolic H s"
    and "toSymIntNodeImplUnowned H s = p" and "p \<noteq> nullptr"
    and "node_wrap ops p (data c) (graph st) = (Inr h, g)"
    and "is_symbolic H (SymInt_unchecked ((h AND NOT (MASK H)) OR IS_SYM H))"
    and "toSymIntNodeImplUnowned H (SymInt_unchecked ((h AND NOT (MASK H)) OR IS_SYM H)) = h"
  shows "normalize_symints H ops s c st =
    (Inr \<lparr>res = (p, h), a_after = s, b_after = c\<rparr>,
     retain h ((retain p st)\<lparr>graph := g, calls := calls st @ [Call_wrap p (data c)]\<rparr>))"
  using normalize_symints_wrap_right [OF assms(2) assms(1) assms(3-5)] assms(6,7)
  by (simp add: destroy_SymInt_def release_retain)

lemma symbolic_arith_left:
  assumes "\<not> is_symbolic H c" and "is_symbolic H s"
    and "toSymIntNodeImplUnowned H s = p" and "p \<noteq> nullptr"
    and "node_wrap ops p (data c) (graph st) = (Inr h, g)"
    and "is_symbolic H (SymInt_unchecked ((h AND NOT (MASK H)) OR IS_SYM H))"
    and "toSymIntNodeImplUnowned H (SymInt_unchecked ((h AND NOT (MASK H)) OR IS_SYM H)) = h"
    and "h \<noteq> nullptr"
  shows "symbolic_arith H ops m c s st =
    (case node_binary ops m h p g of
       (Inl e, g') \<Rightarrow>
         (Inl e, st\<lparr>graph := g', calls := calls st @ [Call_wrap p (data c), Call_binary m h p]\<rparr>)
     | (Inr k, g') \<Rightarrow>
         (Inr (SymInt_unchecked ((k AND NOT (MASK H)) OR IS_SYM H)),
          retain k (st\<lparr>graph := g',
                      calls := calls st @ [Call_wrap p (data c), Call_binary m h p]\<rparr>)))"
  using assms(8) is_symbolic_not_mobile [OF assms(2)]
  by (simp add: symbolic_arith_def bindM_def normalize_symints_left_clean [OF assms(1-7)]
      scope_def call_binary_def retain_fields Let_def toSymInt_def returnM_def
      frame_balance_arith frame_balance_throw split: prod.splits sum.splits)

lemma symbolic_arith_right:
  assumes "\<not> is_symbolic H c" and "is_symbolic H s"
    and "toSymIntNodeImplUnowned H s = p" and "p \<noteq> nullptr"
    and "node_wrap ops p (data c) (graph st) = (Inr h, g)"
    and "is_symbolic H (SymInt_unchecked ((h AND NOT (MASK H)) OR IS_SYM H))"
    and "toSymIntNodeImplUnowned H (SymInt_unchecked ((h AND NOT (MASK H)) OR IS_SYM H)) = h"
  shows "symbolic_arith H ops m s c st =
    (case node_binary ops m p h g of
       (Inl e, g') \<Rightarrow>
         (Inl e, st\<lparr>graph := g', calls := calls st @ [Call_wrap p (data c), Call_binary m p h]\<rparr>)
     | (Inr k, g') \<Rightarrow>
         (Inr (SymInt_unchecked ((k AND NOT (MASK H)) OR IS_SYM H)),
          retain k (st\<lparr>graph := g',
                      calls := calls st @ [Call_wrap p (data c), Call_binary m p h]\<rparr>)))"
  using assms(4) is_symbolic_not_mobile [OF assms(2)]
  by (simp add: symbolic_arith_def bindM_def normalize_symints_right_clean [OF assms(1-7)]
      scope_def call_binary_def retain_fields Let_def toSymInt_def returnM_def
      frame_balance_arith' frame_balance_throw' split: prod.splits sum.splits)

lemma symbolic_compare_left:
  assumes "\<not> is_symbolic H c" and "is_symbolic H s"
    and "toSymIntNodeImplUnowned H s = p" and "p \<noteq> nullptr"
    and "node_wrap ops p (data c) (graph st) = (Inr h, g)"
    and "is_symbolic H (SymInt_unchecked ((h AND NOT (MASK H)) OR IS_SYM H))"
    and "toSymIntNodeImplUnowned H (SymInt_unchecked ((h AND NOT (MASK H)) OR IS_SYM H)) = h"
    and "h \<noteq> nullptr"
  shows "symbolic_compare H ops m c s st =
    (case node_binary ops m h p g of
       (Inl e, g') \<Rightarrow>
         (Inl e, st\<lparr>graph := g', calls := calls st @ [Call_wrap p (data c), Call_binary m h p]\<rparr>)
     | (Inr k, g') \<Rightarrow>
         if k = nullptr
         then (Inl NullDereference,
               st\<lparr>graph := g', calls := calls st @ [Call_wrap p (data c), Call_binary m h p]\<rparr>)
         else (fst (node_bool ops k g'),
               st\<lparr>graph := snd (node_bool ops k g'),
                  calls := calls st @ [Call_wrap p (data c), Call_binary m h p, Call_bool k]\<rparr>))"
  using assms(8) is_symbolic_not_mobile [OF assms(2)]
  by (simp add: symbolic_compare_def bindM_def normalize_symints_left_clean [OF assms(1-7)]
      scope_def call_binary_def call_bool_def retain_fields Let_def
      frame_balance_compare frame_balance_throw null_handle
      split: prod.splits sum.splits)

lemma symbolic_compare_right:
  assumes "\<not> is_symbolic H c" and "is_symbolic H s"
    and "toSymIntNodeImplUnowned H s = p" and "p \<noteq> nullptr"
    and "node_wrap ops p (data c) (graph st) = (Inr h, g)"
    and "is_symbolic H (SymInt_unchecked ((h AND NOT (MASK H)) OR IS_SYM H))"
    and "toSymIntNodeImplUnowned H (SymInt_unchecked ((h AND NOT (MASK H)) OR IS_SYM H)) = h"
  shows "symbolic_compare H ops m s c st =
    (case node_binary ops m p h g of
       (Inl e, g') \<Rightarrow>
         (Inl e, st\<lparr>graph := g', calls := calls st @ [Call_wrap p (data c), Call_binary m p h]\<rparr>)
     | (Inr k, g') \<Rightarrow>
         if k = nullptr
         then (Inl NullDereference,
               st\<lparr>graph := g', calls := calls st @ [Call_wrap p (data c), Call_binary m p h]\<rparr>)
         else (fst (node_bool ops k g'),
               st\<lparr>graph := snd (node_bool ops k g'),
                  calls := calls st @ [Call_wrap p (data c), Call_binary m p h, Call_bool k]\<rparr>))"
  using assms(4) is_symbolic_not_mobile [OF assms(2)]
  by (simp add: symbolic_compare_def bindM_def normalize_symints_right_clean [OF assms(1-7)]
      scope_def call_binary_def call_bool_def retain_fields Let_def
      frame_balance_compare' frame_balance_throw' null_handle
      split: prod.splits sum.splits)
     (auto simp: retain_def release_def fun_eq_iff)

lemma operator_ne_as_eq:
  "operator_ne H ops x y st =
      (case operator_eq H ops x y st of
         (Inl e, st') \<Rightarrow> (Inl e, st') | (Inr r, st') \<Rightarrow> (Inr (\<not> r), st'))"
  by (simp add: operator_ne_def bindM_def returnM_def split: prod.splits sum.splits)

lemma map_sum_id_id: "map_sum id id r = r"
  by (cases r) simp_all

lemma negated_compare:
  "(case (case x of
            (Inl e, g') \<Rightarrow> (Inl e, A e g')
          | (Inr k, g') \<Rightarrow>
              if k = nullptr then (Inl NullDereference, B k g')
              else (fst (nb k g'), C k g')) of
      (Inl e, st') \<Rightarrow> (Inl e, st')
    | (Inr r, st') \<Rightarrow> (Inr (\<not> r), st')) =
   (case x of
      (Inl e, g') \<Rightarrow> (Inl e, A e g')
    | (Inr k, g') \<Rightarrow>
        if k = nullptr then (Inl NullDereference, B k g')
        else (map_sum id Not (fst (nb k g')), C k g'))"
  by (cases x; cases "fst x"; cases "fst (nb (projr (fst x)) (snd x))") simp_all

lemma example_tagged:
  "SymInt_unchecked ((0x1010 AND NOT (MASK example_h)) OR IS_SYM example_h) =
     \<lparr>data = 0x8000000000001010\<rparr>"
  "SymInt_unchecked ((0x1020 AND NOT (MASK example_h)) OR IS_SYM example_h) =
     \<lparr>data = 0x8000000000001020\<rparr>"
  by (simp_all add: SymInt_unchecked_def example_h_def)

lemma example_binary:
  "node_binary const_ops M_add 0x1010 0x1000 [(0x1000, 5), (0x1010, 3)] =
     (Inr 0x1020, [(0x1000, 5), (0x1010, 3), (0x1020, 8)])"
  "node_binary const_ops M_mul 0x1010 0x1000 [(0x1000, 5), (0x1010, 3)] =
     (Inr 0x1020, [(0x1000, 5), (0x1010, 3), (0x1020, 15)])"
  "node_binary const_ops M_lt 0x1000 0x1010 [(0x1000, 5), (0x1010, 3)] =
     (Inr 0x1020, [(0x1000, 5), (0x1010, 3), (0x1020, 0)])"
  "node_bool const_ops 0x1020 [(0x1000, 5), (0x1010, 3), (0x1020, 0)] =
     (Inr False, [(0x1000, 5), (0x1010, 3), (0x1020, 0)])"
  by (simp_all add: const_ops_def const_fresh_def const_eval_def)

lemma example_later_use:
  "node_wrap const_ops 0x1000 3 [(0x1000, 5), (0x1010, 3), (0x1020, 0)] =
     (Inr 0x1030, [(0x1000, 5), (0x1010, 3), (0x1020, 0), (0x1030, 3)])"
  "node_binary const_ops M_lt 0x1000 0x1030 [(0x1000, 5), (0x1010, 3), (0x1020, 0), (0x1030, 3)] =
     (Inr 0x1040, [(0x1000, 5), (0x1010, 3), (0x1020, 0), (0x1030, 3), (0x1040, 0)])"
  "node_bool const_ops 0x1040 [(0x1000, 5), (0x1010, 3), (0x1020, 0), (0x1030, 3), (0x1040, 0)] =
     (Inr False, [(0x1000, 5), (0x1010, 3), (0x1020, 0), (0x1030, 3), (0x1040, 0)])"
  by (simp_all add: const_ops_def const_fresh_def const_eval_def)

subsection \<open>Division and modulo on concrete values\<close>

text \<open>
  C1. The specification asks that \<^verbatim>\<open>/\<close> and \<^verbatim>\<open>%\<close> on two concrete values be the floor
  quotient and the floor remainder, \<open>-4\<close> and \<open>1\<close> for \<open>-7\<close> and \<open>2\<close>. The source computes
  \<^verbatim>\<open>data_ / sci.data_\<close> and \<^verbatim>\<open>data_ % sci.data_\<close>, the truncating native operations: at
  \<open>-7\<close> and \<open>2\<close> the quotient is \<open>-3\<close> and the remainder is \<open>-1\<close>, whatever the node
  implementation and the state are, and no node operation is called.
\<close>

theorem operator_div_mod_truncates:
  "operator_div example_h ops \<lparr>data = - 7\<rparr> \<lparr>data = 2\<rparr> st = (Inr \<lparr>data = - 3\<rparr>, st) \<and>
   operator_mod example_h ops \<lparr>data = - 7\<rparr> \<lparr>data = 2\<rparr> st = (Inr \<lparr>data = - 1\<rparr>, st)"
proof -
  have d: "native_div (- 7) 2 = Inr (- 3)"
    by (simp add: native_div_def INT64_MIN_def signed_divide_int_def)
  have m: "native_mod (- 7) 2 = Inr (- 1)"
    by (simp add: native_mod_def INT64_MIN_def signed_modulo_int_def)
  have c3: "SymInt_of example_h (- 3) = Inr \<lparr>data = - 3\<rparr>"
    by (simp add: example_h_def)
  have c1: "SymInt_of example_h (- 1) = Inr \<lparr>data = - 1\<rparr>"
    by (simp add: example_h_def)
  show ?thesis
    using example_h_concrete_small(1,2)
    by (simp add: operator_div_def operator_mod_def liftM_def construct_def d m c3 c1)
qed

subsection \<open>The concrete fast path\<close>

text \<open>
  C3. The specification states that an operator on two concrete values returns the
  native result on the raw integers. The arithmetic operators build their result with
  the converting constructor \<^verbatim>\<open>SymInt(int64_t)\<close>, which checks the word (the source
  reserves the \<^verbatim>\<open>UNCHECKED\<close> constructor for words that carry the tag): with the
  header given above, the sum of \<^verbatim>\<open>INT64_MAX\<close> and 1 and the sum of \<open>-2^62\<close> and \<open>-1\<close>,
  which does not overflow, both fail instead of returning the native sum.
\<close>

theorem constructor_refuses_counterexample:
  "\<not> is_symbolic example_h \<lparr>data = 0x7FFFFFFFFFFFFFFF\<rparr> \<and>
   \<not> is_symbolic example_h \<lparr>data = 1\<rparr> \<and>
   operator_add example_h const_ops \<lparr>data = 0x7FFFFFFFFFFFFFFF\<rparr> \<lparr>data = 1\<rparr> example_state =
     (Inl TorchCheckFailed, example_state) \<and>
   \<not> is_symbolic example_h \<lparr>data = 0xC000000000000000\<rparr> \<and>
   \<not> is_symbolic example_h \<lparr>data = - 1\<rparr> \<and>
   sint (0xC000000000000000 :: int64_t) + sint (- 1 :: int64_t) = - 4611686018427387905 \<and>
   operator_add example_h const_ops \<lparr>data = 0xC000000000000000\<rparr> \<lparr>data = - 1\<rparr> example_state =
     (Inl TorchCheckFailed, example_state)"
proof -
  have c: "\<not> is_symbolic example_h \<lparr>data = 0x7FFFFFFFFFFFFFFF\<rparr>"
    "\<not> is_symbolic example_h \<lparr>data = 1\<rparr>"
    "\<not> is_symbolic example_h \<lparr>data = 0xC000000000000000\<rparr>"
    "\<not> is_symbolic example_h \<lparr>data = - 1\<rparr>"
    by (simp_all add: is_symbolic_def example_h_def)
  have s1: "SymInt_of example_h (0x7FFFFFFFFFFFFFFF + 1) = Inl TorchCheckFailed"
    by (simp add: example_h_def)
  have s2: "SymInt_of example_h (0xC000000000000000 + - 1) = Inl TorchCheckFailed"
    by (simp add: example_h_def)
  have a1: "operator_add example_h const_ops \<lparr>data = 0x7FFFFFFFFFFFFFFF\<rparr> \<lparr>data = 1\<rparr> example_state =
     (Inl TorchCheckFailed, example_state)"
    using c(1,2) s1 by (simp add: operator_add_def liftM_def)
  have a2: "operator_add example_h const_ops \<lparr>data = 0xC000000000000000\<rparr> \<lparr>data = - 1\<rparr> example_state =
     (Inl TorchCheckFailed, example_state)"
    using c(3,4) s2 by (simp add: operator_add_def liftM_def)
  have n: "sint (0xC000000000000000 :: int64_t) + sint (- 1 :: int64_t) = - 4611686018427387905"
    by simp
  from c a1 a2 n show ?thesis by blast
qed

text \<open>
  C3, as amended. When both operands are concrete, every comparison returns the native
  signed comparison of the two raw words, and every arithmetic operator computes the
  native result on them, wrapping around at 64 bits (the sum, difference and product are
  the integer results reduced to 64 bits, the quotient and remainder are the truncating
  ones, with the native trap) and hands that word to the converting constructor
  \<^verbatim>\<open>SymInt(int64_t)\<close>: what the constructor returns, value or failure, is what the
  operator returns. The state comes back as it was: no node operation is called, no node
  is created and no reference count moves, so nothing is normalized.
\<close>

theorem concrete_operators_native:
  assumes "\<not> is_symbolic H x" and "\<not> is_symbolic H y"
  shows "operator_add H ops x y st = (SymInt_of H (word_of_int (sint (data x) + sint (data y))), st) \<and>
    operator_sub H ops x y st = (SymInt_of H (word_of_int (sint (data x) - sint (data y))), st) \<and>
    operator_mul H ops x y st = (SymInt_of H (word_of_int (sint (data x) * sint (data y))), st) \<and>
    operator_div H ops x y st =
      (if data y = 0 \<or> (data x = INT64_MIN \<and> data y = - 1) then Inl DivisionTrap
       else SymInt_of H (word_of_int (sint (data x) sdiv sint (data y))), st) \<and>
    operator_mod H ops x y st =
      (if data y = 0 \<or> (data x = INT64_MIN \<and> data y = - 1) then Inl DivisionTrap
       else SymInt_of H (word_of_int (sint (data x) smod sint (data y))), st) \<and>
    operator_eq H ops x y st = (Inr (data x = data y), st) \<and>
    operator_ne H ops x y st = (Inr (data x \<noteq> data y), st) \<and>
    operator_lt H ops x y st = (Inr (sint (data x) < sint (data y)), st) \<and>
    operator_le H ops x y st = (Inr (sint (data x) \<le> sint (data y)), st) \<and>
    operator_gt H ops x y st = (Inr (sint (data x) > sint (data y)), st) \<and>
    operator_ge H ops x y st = (Inr (sint (data x) \<ge> sint (data y)), st)"
proof -
  have add: "operator_add H ops x y st = (SymInt_of H (word_of_int (sint (data x) + sint (data y))), st)"
    using assms by (simp add: operator_add_def liftM_def)
  have sub: "operator_sub H ops x y st = (SymInt_of H (word_of_int (sint (data x) - sint (data y))), st)"
    using assms by (simp add: operator_sub_def liftM_def)
  have mul: "operator_mul H ops x y st = (SymInt_of H (word_of_int (sint (data x) * sint (data y))), st)"
    using assms by (simp add: operator_mul_def liftM_def)
  have dv: "operator_div H ops x y st =
      (if data y = 0 \<or> (data x = INT64_MIN \<and> data y = - 1) then Inl DivisionTrap
       else SymInt_of H (word_of_int (sint (data x) sdiv sint (data y))), st)"
    using assms by (simp add: operator_div_def liftM_def construct_def native_div_def)
  have md: "operator_mod H ops x y st =
      (if data y = 0 \<or> (data x = INT64_MIN \<and> data y = - 1) then Inl DivisionTrap
       else SymInt_of H (word_of_int (sint (data x) smod sint (data y))), st)"
    using assms by (simp add: operator_mod_def liftM_def construct_def native_mod_def)
  have eq: "operator_eq H ops x y st = (Inr (data x = data y), st)"
    using assms by (simp add: operator_eq_def returnM_def)
  have ne: "operator_ne H ops x y st = (Inr (data x \<noteq> data y), st)"
    using eq by (simp add: operator_ne_def bindM_def returnM_def)
  have lt: "operator_lt H ops x y st = (Inr (sint (data x) < sint (data y)), st)"
    using assms by (simp add: operator_lt_def returnM_def sless_sint)
  have le: "operator_le H ops x y st = (Inr (sint (data x) \<le> sint (data y)), st)"
    using assms by (simp add: operator_le_def returnM_def sle_sint)
  have gt: "operator_gt H ops x y st = (Inr (sint (data x) > sint (data y)), st)"
    using assms by (simp add: operator_gt_def returnM_def sless_sint)
  have ge: "operator_ge H ops x y st = (Inr (sint (data x) \<ge> sint (data y)), st)"
    using assms by (simp add: operator_ge_def returnM_def sle_sint)
  from add sub mul dv md eq ne lt le gt ge show ?thesis by blast
qed

theorem concrete_operators_native_witness:
  "\<not> is_symbolic example_h \<lparr>data = - 7\<rparr> \<and> \<not> is_symbolic example_h \<lparr>data = 2\<rparr> \<and>
   operator_add example_h const_ops \<lparr>data = - 7\<rparr> \<lparr>data = 2\<rparr> example_state = (Inr \<lparr>data = - 5\<rparr>, example_state) \<and>
   operator_sub example_h const_ops \<lparr>data = - 7\<rparr> \<lparr>data = 2\<rparr> example_state = (Inr \<lparr>data = - 9\<rparr>, example_state) \<and>
   operator_mul example_h const_ops \<lparr>data = - 7\<rparr> \<lparr>data = 2\<rparr> example_state = (Inr \<lparr>data = - 14\<rparr>, example_state) \<and>
   operator_div example_h const_ops \<lparr>data = - 7\<rparr> \<lparr>data = 2\<rparr> example_state = (Inr \<lparr>data = - 3\<rparr>, example_state) \<and>
   operator_mod example_h const_ops \<lparr>data = - 7\<rparr> \<lparr>data = 2\<rparr> example_state = (Inr \<lparr>data = - 1\<rparr>, example_state) \<and>
   operator_eq example_h const_ops \<lparr>data = - 7\<rparr> \<lparr>data = 2\<rparr> example_state = (Inr False, example_state) \<and>
   operator_lt example_h const_ops \<lparr>data = - 7\<rparr> \<lparr>data = 2\<rparr> example_state = (Inr True, example_state) \<and>
   operator_ge example_h const_ops \<lparr>data = - 7\<rparr> \<lparr>data = 2\<rparr> example_state = (Inr False, example_state) \<and>
   \<not> is_symbolic example_h \<lparr>data = 0x4000000000000000\<rparr> \<and> \<not> is_symbolic example_h \<lparr>data = 4\<rparr> \<and>
   operator_mul example_h const_ops \<lparr>data = 0x4000000000000000\<rparr> \<lparr>data = 4\<rparr> example_state =
     (Inr \<lparr>data = 0\<rparr>, example_state) \<and>
   \<not> is_symbolic example_h \<lparr>data = 0xC000000000000000\<rparr> \<and>
   \<not> is_symbolic example_h \<lparr>data = - 1\<rparr> \<and>
   operator_add example_h const_ops \<lparr>data = 0xC000000000000000\<rparr> \<lparr>data = - 1\<rparr>
     example_state = (Inl TorchCheckFailed, example_state)"
proof -
  have small: "operator_add example_h const_ops \<lparr>data = - 7\<rparr> \<lparr>data = 2\<rparr> example_state = (Inr \<lparr>data = - 5\<rparr>, example_state) \<and>
   operator_sub example_h const_ops \<lparr>data = - 7\<rparr> \<lparr>data = 2\<rparr> example_state = (Inr \<lparr>data = - 9\<rparr>, example_state) \<and>
   operator_mul example_h const_ops \<lparr>data = - 7\<rparr> \<lparr>data = 2\<rparr> example_state = (Inr \<lparr>data = - 14\<rparr>, example_state) \<and>
   operator_div example_h const_ops \<lparr>data = - 7\<rparr> \<lparr>data = 2\<rparr> example_state = (Inr \<lparr>data = - 3\<rparr>, example_state) \<and>
   operator_mod example_h const_ops \<lparr>data = - 7\<rparr> \<lparr>data = 2\<rparr> example_state = (Inr \<lparr>data = - 1\<rparr>, example_state) \<and>
   operator_eq example_h const_ops \<lparr>data = - 7\<rparr> \<lparr>data = 2\<rparr> example_state = (Inr False, example_state) \<and>
   operator_lt example_h const_ops \<lparr>data = - 7\<rparr> \<lparr>data = 2\<rparr> example_state = (Inr True, example_state) \<and>
   operator_ge example_h const_ops \<lparr>data = - 7\<rparr> \<lparr>data = 2\<rparr> example_state = (Inr False, example_state)"
    using concrete_operators_native [OF example_h_concrete_small(1) example_h_concrete_small(2),
      of const_ops example_state]
    by (simp add: example_h_def INT64_MIN_def signed_divide_int_def signed_modulo_int_def)
  have large: "operator_mul example_h const_ops \<lparr>data = 0x4000000000000000\<rparr> \<lparr>data = 4\<rparr> example_state =
     (Inr \<lparr>data = 0\<rparr>, example_state)"
    using concrete_operators_native [OF example_h_concrete_large(1) example_h_concrete_large(2),
      of const_ops example_state]
    by (simp add: example_h_def)
  have c: "\<not> is_symbolic example_h \<lparr>data = 0xC000000000000000\<rparr>"
    "\<not> is_symbolic example_h \<lparr>data = - 1\<rparr>"
    by (simp_all add: is_symbolic_def example_h_def)
  have refused: "operator_add example_h const_ops \<lparr>data = 0xC000000000000000\<rparr> \<lparr>data = - 1\<rparr>
      example_state = (Inl TorchCheckFailed, example_state)"
    using concrete_operators_native [OF c(1) c(2), of const_ops example_state]
    by (simp add: example_h_def)
  from small large refused c example_h_concrete_small(1,2) example_h_concrete_large
  show ?thesis by blast
qed

subsection \<open>Comparison duality\<close>

text \<open>
  C5. For all values, concrete or symbolic, \<^verbatim>\<open>a != b\<close> is the negation of \<^verbatim>\<open>a == b\<close>: it
  fails exactly when \<^verbatim>\<open>==\<close> fails, with the same error, and it leaves the state that
  \<^verbatim>\<open>==\<close> leaves, so the node operations it invokes are those of \<^verbatim>\<open>==\<close> and no other.
\<close>

theorem operator_ne_negates_eq:
  "operator_ne H ops x y st =
     (case operator_eq H ops x y st of
        (Inl e, st') \<Rightarrow> (Inl e, st')
      | (Inr r, st') \<Rightarrow> (Inr (\<not> r), st'))"
  by (simp add: operator_ne_def bindM_def returnM_def split: prod.splits sum.splits)

subsection \<open>The overloads with a raw integer\<close>

text \<open>
  C9. Each overload that takes an \<^verbatim>\<open>int64_t\<close> on the right (\<^verbatim>\<open><\<close>, \<^verbatim>\<open><=\<close>, \<^verbatim>\<open>>\<close>,
  \<^verbatim>\<open>>=\<close>, \<^verbatim>\<open>==\<close>, \<^verbatim>\<open>!=\<close> and \<^verbatim>\<open>*\<close>) constructs a \<^verbatim>\<open>SymInt\<close> from the integer and
  gives exactly the result and the state of the operator on two values; when the
  construction fails, so does the overload, and nothing else happens.
\<close>

theorem int_overloads_are_sugar:
  "operator_lt_int H ops v i st =
     (case SymInt_of H i of Inl e \<Rightarrow> (Inl e, st) | Inr s \<Rightarrow> operator_lt H ops v s st) \<and>
   operator_le_int H ops v i st =
     (case SymInt_of H i of Inl e \<Rightarrow> (Inl e, st) | Inr s \<Rightarrow> operator_le H ops v s st) \<and>
   operator_gt_int H ops v i st =
     (case SymInt_of H i of Inl e \<Rightarrow> (Inl e, st) | Inr s \<Rightarrow> operator_gt H ops v s st) \<and>
   operator_ge_int H ops v i st =
     (case SymInt_of H i of Inl e \<Rightarrow> (Inl e, st) | Inr s \<Rightarrow> operator_ge H ops v s st) \<and>
   operator_eq_int H ops v i st =
     (case SymInt_of H i of Inl e \<Rightarrow> (Inl e, st) | Inr s \<Rightarrow> operator_eq H ops v s st) \<and>
   operator_ne_int H ops v i st =
     (case SymInt_of H i of Inl e \<Rightarrow> (Inl e, st) | Inr s \<Rightarrow> operator_ne H ops v s st) \<and>
   operator_mul_int H ops v i st =
     (case SymInt_of H i of Inl e \<Rightarrow> (Inl e, st) | Inr s \<Rightarrow> operator_mul H ops v s st)"
  by (simp add: operator_lt_int_def operator_le_int_def operator_gt_int_def operator_ge_int_def
      operator_eq_int_def operator_ne_int_def operator_mul_int_def bindM_def liftM_def
      split: sum.splits)

subsection \<open>\<^verbatim>\<open>guard_int\<close>\<close>

text \<open>
  C6. On a concrete value \<^verbatim>\<open>guard_int\<close> returns the stored word and leaves the state
  untouched, so it invokes no node operation. On a symbolic value that refers to a node
  it makes the one call of the node's \<^verbatim>\<open>guard_int\<close>, with the file and the line it was
  given, and returns what the node returns or throws.
\<close>

theorem guard_int_delegation:
  "(\<not> is_symbolic H v \<longrightarrow> guard_int H ops v file line st = (Inr (data v), st)) \<and>
   (is_symbolic H v \<and> toSymIntNodeImplUnowned H v \<noteq> nullptr \<longrightarrow>
      guard_int H ops v file line st =
        (fst (node_guard_int ops (toSymIntNodeImplUnowned H v) file line (graph st)),
         st\<lparr>graph := snd (node_guard_int ops (toSymIntNodeImplUnowned H v) file line (graph st)),
            calls := calls st @ [Call_guard_int (toSymIntNodeImplUnowned H v) file line]\<rparr>))"
  by (simp add: guard_int_concrete guard_int_symbolic)

theorem guard_int_delegation_witness:
  "\<not> is_symbolic example_h \<lparr>data = 42\<rparr> \<and>
   guard_int example_h const_ops \<lparr>data = 42\<rparr> ''SymInt.cpp'' 57 example_state
     = (Inr 42, example_state) \<and>
   is_symbolic example_h example_sym \<and>
   toSymIntNodeImplUnowned example_h example_sym \<noteq> nullptr \<and>
   guard_int example_h const_ops example_sym ''SymInt.cpp'' 57 example_state
     = (Inr 5, example_state\<lparr>calls := [Call_guard_int 0x1000 ''SymInt.cpp'' 57]\<rparr>)"
  using guard_int_delegation [of example_h "\<lparr>data = 42\<rparr>" const_ops "''SymInt.cpp''" 57 example_state]
    guard_int_delegation [of example_h example_sym const_ops "''SymInt.cpp''" 57 example_state]
    example_h_concrete_small(4) example_sym_symbolic
  by (simp add: example_sym_node nullptr_def const_ops_def example_state_def)

text \<open>
  C10. \<^verbatim>\<open>guard_int\<close> is a \<^verbatim>\<open>const\<close> member: the receiver is read only. Whatever the
  receiver is and whether the node's operation returns or throws, the reference counts
  after the call are those before it: the handle made on the symbolic path is a local,
  and its destructor gives back the unit that \<^verbatim>\<open>toSymIntNodeImpl\<close> took.
\<close>

theorem guard_int_refcount:
  "refcount (snd (guard_int H ops v file line st)) = refcount st"
proof (cases "is_symbolic H v")
  case False
  then show ?thesis by (simp add: guard_int_concrete)
next
  case True
  show ?thesis
  proof (cases "toSymIntNodeImplUnowned H v = nullptr")
    case False
    then show ?thesis using True by (simp add: guard_int_symbolic)
  next
    case n: True
    then show ?thesis using True
      by (simp add: guard_int_def bindM_def toSymIntNodeImpl_symbolic scope_def call_guard_int_def
        retain_def release_def)
  qed
qed

subsection \<open>\<^verbatim>\<open>toSymIntNodeImpl\<close>\<close>

text \<open>
  C7. \<^verbatim>\<open>toSymIntNodeImpl\<close> on a concrete value fails, by \<^verbatim>\<open>TORCH_CHECK\<close> (by the
  assertion of the stub on the mobile build), and changes nothing. On a symbolic value
  that refers to a node it returns a handle to that node, the count of the node goes up
  by exactly one and nothing else changes; the value can be converted again, which
  returns the same node and brings the count to two more than at the start.
\<close>

theorem toSymIntNodeImpl_contract:
  "(\<not> is_symbolic H v \<longrightarrow>
      toSymIntNodeImpl H v st =
        (Inl (if C10_MOBILE H then InternalAssertFailed mobile_msg else TorchCheckFailed), st)) \<and>
   (is_symbolic H v \<and> toSymIntNodeImplUnowned H v \<noteq> nullptr \<longrightarrow>
      (let p = toSymIntNodeImplUnowned H v;
           st1 = snd (toSymIntNodeImpl H v st);
           st2 = snd (toSymIntNodeImpl H v st1)
       in fst (toSymIntNodeImpl H v st) = Inr p \<and>
          refcount st1 = (refcount st)(p := refcount st p + 1) \<and>
          graph st1 = graph st \<and> calls st1 = calls st \<and>
          fst (toSymIntNodeImpl H v st1) = Inr p \<and>
          refcount st2 = (refcount st)(p := refcount st p + 2)))"
  by (simp add: toSymIntNodeImpl_symbolic Let_def retain_def)
     (simp add: toSymIntNodeImpl_def throwM_def)

theorem toSymIntNodeImpl_contract_witness:
  "\<not> is_symbolic example_h \<lparr>data = 42\<rparr> \<and>
   toSymIntNodeImpl example_h \<lparr>data = 42\<rparr> example_state = (Inl TorchCheckFailed, example_state) \<and>
   is_symbolic example_h example_sym \<and>
   toSymIntNodeImplUnowned example_h example_sym \<noteq> nullptr \<and>
   fst (toSymIntNodeImpl example_h example_sym example_state) = Inr 0x1000 \<and>
   refcount (snd (toSymIntNodeImpl example_h example_sym example_state)) 0x1000 = 2"
proof -
  have c: "\<not> is_symbolic example_h \<lparr>data = 42\<rparr>"
    by (rule example_h_concrete_small(4))
  have nm: "\<not> C10_MOBILE example_h"
    by (simp add: example_h_def)
  have nn: "toSymIntNodeImplUnowned example_h example_sym \<noteq> nullptr"
    by (simp add: example_sym_node nullptr_def)
  have a: "toSymIntNodeImpl example_h \<lparr>data = 42\<rparr> example_state = (Inl TorchCheckFailed, example_state)"
    using toSymIntNodeImpl_contract [of example_h "\<lparr>data = 42\<rparr>" example_state] c nm by simp
  have b: "fst (toSymIntNodeImpl example_h example_sym example_state) = Inr 0x1000 \<and>
     refcount (snd (toSymIntNodeImpl example_h example_sym example_state)) 0x1000 = 2"
    using toSymIntNodeImpl_contract [of example_h example_sym example_state] example_sym_symbolic nn
    by (simp add: Let_def example_sym_node example_state_def)
  from c a example_sym_symbolic nn b show ?thesis by blast
qed

subsection \<open>The mobile build\<close>

text \<open>
  C8. On the mobile build \<^verbatim>\<open>toSymInt\<close>, \<^verbatim>\<open>toSymIntNodeImpl\<close> and \<^verbatim>\<open>normalize_symints\<close>
  fail for every input with the internal assertion and its fixed message; none returns
  a value. (The handle given to \<^verbatim>\<open>toSymInt\<close> is destroyed on the way out.)
\<close>

theorem mobile_stubs_assert:
  assumes "C10_MOBILE H"
  shows "toSymInt H sin_sp st =
           (Inl (InternalAssertFailed ''SymInts aren't available on mobile''), release sin_sp st) \<and>
         toSymIntNodeImpl H v st =
           (Inl (InternalAssertFailed ''SymInts aren't available on mobile''), st) \<and>
         normalize_symints H ops x y st =
           (Inl (InternalAssertFailed ''SymInts aren't available on mobile''), st)"
  using assms
  by (simp add: toSymInt_def toSymIntNodeImpl_def normalize_symints_def scope_def throwM_def
      mobile_msg_def)

theorem mobile_stubs_assert_witness:
  "C10_MOBILE mobile_h \<and>
   toSymInt mobile_h 0x1000 example_state =
     (Inl (InternalAssertFailed ''SymInts aren't available on mobile''),
      example_state\<lparr>refcount := (refcount example_state)(0x1000 := 0)\<rparr>) \<and>
   toSymIntNodeImpl mobile_h example_sym example_state =
     (Inl (InternalAssertFailed ''SymInts aren't available on mobile''), example_state) \<and>
   normalize_symints mobile_h const_ops \<lparr>data = 3\<rparr> example_sym example_state =
     (Inl (InternalAssertFailed ''SymInts aren't available on mobile''), example_state)"
proof -
  have m: "C10_MOBILE mobile_h" by (simp add: mobile_h_def)
  have r: "release 0x1000 example_state =
      example_state\<lparr>refcount := (refcount example_state)(0x1000 := 0)\<rparr>"
    by (simp add: release_def nullptr_def example_state_def)
  show ?thesis
    using mobile_stubs_assert [OF m, of "0x1000" example_state example_sym const_ops "\<lparr>data = 3\<rparr>" example_sym] m
    by (simp add: r)
qed

subsection \<open>Operand normalization\<close>

text \<open>
  C4. With at least one symbolic operand (referring to a node), \<^verbatim>\<open>normalize_symints\<close>
  returns two handles: the handle of an operand that was symbolic refers to that
  operand's own node; the exemplar is the first operand's node when the first operand
  is symbolic and the second operand's node otherwise; and the handle of an operand that
  was concrete is the one that \<^verbatim>\<open>wrap\<close>, called on the exemplar with the operand's raw
  word, returns. \<^verbatim>\<open>wrap\<close> is the only node operation called, and it is not called when
  both operands are symbolic.
\<close>

theorem normalize_symints_handles:
  "(is_symbolic H x \<and> is_symbolic H y \<and>
    toSymIntNodeImplUnowned H x \<noteq> nullptr \<and> toSymIntNodeImplUnowned H y \<noteq> nullptr \<longrightarrow>
      fst (normalize_symints H ops x y st) =
        Inr \<lparr>res = (toSymIntNodeImplUnowned H x, toSymIntNodeImplUnowned H y),
             a_after = x, b_after = y\<rparr> \<and>
      calls (snd (normalize_symints H ops x y st)) = calls st) \<and>
   (is_symbolic H x \<and> \<not> is_symbolic H y \<and> toSymIntNodeImplUnowned H x \<noteq> nullptr \<and>
    node_wrap ops (toSymIntNodeImplUnowned H x) (data y) (graph st) = (Inr h, g) \<longrightarrow>
      fst (normalize_symints H ops x y st) =
        Inr \<lparr>res = (toSymIntNodeImplUnowned H x, h), a_after = x, b_after = y\<rparr> \<and>
      calls (snd (normalize_symints H ops x y st)) =
        calls st @ [Call_wrap (toSymIntNodeImplUnowned H x) (data y)]) \<and>
   (\<not> is_symbolic H x \<and> is_symbolic H y \<and> toSymIntNodeImplUnowned H y \<noteq> nullptr \<and>
    node_wrap ops (toSymIntNodeImplUnowned H y) (data x) (graph st) = (Inr h, g) \<longrightarrow>
      fst (normalize_symints H ops x y st) =
        Inr \<lparr>res = (h, toSymIntNodeImplUnowned H y), a_after = x, b_after = y\<rparr> \<and>
      calls (snd (normalize_symints H ops x y st)) =
        calls st @ [Call_wrap (toSymIntNodeImplUnowned H y) (data x)])"
proof (intro conjI impI)
  assume "is_symbolic H x \<and> is_symbolic H y \<and>
    toSymIntNodeImplUnowned H x \<noteq> nullptr \<and> toSymIntNodeImplUnowned H y \<noteq> nullptr"
  then have e: "normalize_symints H ops x y st =
    (Inr \<lparr>res = (toSymIntNodeImplUnowned H x, toSymIntNodeImplUnowned H y), a_after = x, b_after = y\<rparr>,
     retain (toSymIntNodeImplUnowned H y) (retain (toSymIntNodeImplUnowned H x) st))"
    by (simp add: normalize_symints_both_symbolic)
  show "fst (normalize_symints H ops x y st) =
        Inr \<lparr>res = (toSymIntNodeImplUnowned H x, toSymIntNodeImplUnowned H y),
             a_after = x, b_after = y\<rparr>"
    by (simp add: e)
  show "calls (snd (normalize_symints H ops x y st)) = calls st"
    by (simp add: e retain_fields)
next
  assume a: "is_symbolic H x \<and> \<not> is_symbolic H y \<and> toSymIntNodeImplUnowned H x \<noteq> nullptr \<and>
    node_wrap ops (toSymIntNodeImplUnowned H x) (data y) (graph st) = (Inr h, g)"
  note e = normalize_symints_wrap_right [of H x y "toSymIntNodeImplUnowned H x" ops st h g]
  show "fst (normalize_symints H ops x y st) =
        Inr \<lparr>res = (toSymIntNodeImplUnowned H x, h), a_after = x, b_after = y\<rparr>"
    using a e by simp
  show "calls (snd (normalize_symints H ops x y st)) =
        calls st @ [Call_wrap (toSymIntNodeImplUnowned H x) (data y)]"
    using a e by (simp add: destroy_SymInt_fields retain_fields)
next
  assume a: "\<not> is_symbolic H x \<and> is_symbolic H y \<and> toSymIntNodeImplUnowned H y \<noteq> nullptr \<and>
    node_wrap ops (toSymIntNodeImplUnowned H y) (data x) (graph st) = (Inr h, g)"
  note e = normalize_symints_wrap_left [of H x y "toSymIntNodeImplUnowned H y" ops st h g]
  show "fst (normalize_symints H ops x y st) =
        Inr \<lparr>res = (h, toSymIntNodeImplUnowned H y), a_after = x, b_after = y\<rparr>"
    using a e by simp
  show "calls (snd (normalize_symints H ops x y st)) =
        calls st @ [Call_wrap (toSymIntNodeImplUnowned H y) (data x)]"
    using a e by (simp add: destroy_SymInt_fields retain_fields)
qed

theorem normalize_symints_handles_witness:
  "is_symbolic example_h example_sym \<and> \<not> is_symbolic example_h \<lparr>data = 3\<rparr> \<and>
   toSymIntNodeImplUnowned example_h example_sym \<noteq> nullptr \<and>
   node_wrap const_ops (toSymIntNodeImplUnowned example_h example_sym) (data \<lparr>data = 3\<rparr>)
     (graph example_state) = (Inr 0x1010, [(0x1000, 5), (0x1010, 3)]) \<and>
   fst (normalize_symints example_h const_ops example_sym example_sym example_state) =
     Inr \<lparr>res = (0x1000, 0x1000), a_after = example_sym, b_after = example_sym\<rparr> \<and>
   fst (normalize_symints example_h const_ops example_sym \<lparr>data = 3\<rparr> example_state) =
     Inr \<lparr>res = (0x1000, 0x1010), a_after = example_sym, b_after = \<lparr>data = 3\<rparr>\<rparr> \<and>
   calls (snd (normalize_symints example_h const_ops example_sym \<lparr>data = 3\<rparr> example_state)) =
     [Call_wrap 0x1000 3] \<and>
   fst (normalize_symints example_h const_ops \<lparr>data = 3\<rparr> example_sym example_state) =
     Inr \<lparr>res = (0x1010, 0x1000), a_after = \<lparr>data = 3\<rparr>, b_after = example_sym\<rparr> \<and>
   calls (snd (normalize_symints example_h const_ops \<lparr>data = 3\<rparr> example_sym example_state)) =
     [Call_wrap 0x1000 3]"
proof -
  have s: "is_symbolic example_h example_sym" by (rule example_sym_symbolic)
  have c: "\<not> is_symbolic example_h \<lparr>data = 3\<rparr>" by (rule example_h_concrete_small(3))
  have n: "toSymIntNodeImplUnowned example_h example_sym \<noteq> nullptr"
    by (simp add: example_sym_node nullptr_def)
  have w: "node_wrap const_ops (toSymIntNodeImplUnowned example_h example_sym) (data \<lparr>data = 3\<rparr>)
     (graph example_state) = (Inr 0x1010, [(0x1000, 5), (0x1010, 3)])"
    by (simp add: example_sym_node example_wrap)
  have k: "calls example_state = []" by (simp add: example_state_def)
  have both: "fst (normalize_symints example_h const_ops example_sym example_sym example_state) =
     Inr \<lparr>res = (0x1000, 0x1000), a_after = example_sym, b_after = example_sym\<rparr>"
    using normalize_symints_handles [of example_h example_sym example_sym const_ops example_state] s n
    by (simp add: example_sym_node)
  have right: "fst (normalize_symints example_h const_ops example_sym \<lparr>data = 3\<rparr> example_state) =
     Inr \<lparr>res = (0x1000, 0x1010), a_after = example_sym, b_after = \<lparr>data = 3\<rparr>\<rparr> \<and>
    calls (snd (normalize_symints example_h const_ops example_sym \<lparr>data = 3\<rparr> example_state)) =
     [Call_wrap 0x1000 3]"
    using normalize_symints_handles [of example_h example_sym "\<lparr>data = 3\<rparr>" const_ops example_state
        "0x1010" "[(0x1000, 5), (0x1010, 3)]"] s c n w
    by (simp add: example_sym_node k)
  have left: "fst (normalize_symints example_h const_ops \<lparr>data = 3\<rparr> example_sym example_state) =
     Inr \<lparr>res = (0x1010, 0x1000), a_after = \<lparr>data = 3\<rparr>, b_after = example_sym\<rparr> \<and>
    calls (snd (normalize_symints example_h const_ops \<lparr>data = 3\<rparr> example_sym example_state)) =
     [Call_wrap 0x1000 3]"
    using normalize_symints_handles [of example_h "\<lparr>data = 3\<rparr>" example_sym const_ops example_state
        "0x1010" "[(0x1000, 5), (0x1010, 3)]"] s c n w
    by (simp add: example_sym_node k)
  from s c n w both right left show ?thesis by blast
qed

text \<open>
  C2. The specification states that after an operation on a symbolic and a concrete
  operand both operands, as the caller holds them, are symbolic. They are not: the
  operands are passed by value, and the tagged word that \<^verbatim>\<open>toSymInt\<close> builds from the
  wrapped node during normalization is a temporary. Adding the concrete 3 and a
  symbolic value gives a symbolic sum, and the operand 3 is still concrete.
\<close>

theorem operand_stays_concrete_counterexample:
  "fst (operator_add example_h const_ops \<lparr>data = 3\<rparr> example_sym example_state) =
     Inr \<lparr>data = 0x8000000000001020\<rparr> \<and>
   is_symbolic example_h \<lparr>data = 0x8000000000001020\<rparr> \<and>
   \<not> is_symbolic example_h
       (a_after (projr (fst (normalize_symints example_h const_ops \<lparr>data = 3\<rparr> example_sym
          example_state))))"
proof -
  have nm: "\<not> C10_MOBILE example_h" by (simp add: example_h_def)
  have b: "node_binary const_ops M_add 0x1010 0x1000 [(0x1000, 5), (0x1010, 3)] =
      (Inr 0x1020, [(0x1000, 5), (0x1010, 3), (0x1020, 8)])"
    by (simp add: const_ops_def const_fresh_def const_eval_def)
  have v: "fst (symbolic_arith example_h const_ops M_add \<lparr>data = 3\<rparr> example_sym example_state) =
      Inr (SymInt_unchecked ((0x1020 AND NOT (MASK example_h)) OR IS_SYM example_h))"
    by (rule symbolic_arith_value [OF example_normalize_left _ _ nm])
       (simp_all add: nullptr_def destroy_SymInt_fields retain_fields b)
  have z: "SymInt_unchecked ((0x1020 AND NOT (MASK example_h)) OR IS_SYM example_h) =
      \<lparr>data = 0x8000000000001020\<rparr>"
    by (simp add: SymInt_unchecked_def example_h_def)
  have 1: "fst (operator_add example_h const_ops \<lparr>data = 3\<rparr> example_sym example_state) =
     Inr \<lparr>data = 0x8000000000001020\<rparr>"
    using v z example_sym_symbolic by (simp add: operator_add_def)
  have 2: "is_symbolic example_h \<lparr>data = 0x8000000000001020\<rparr>"
    by (simp add: is_symbolic_def example_h_def)
  have 3: "\<not> is_symbolic example_h
       (a_after (projr (fst (normalize_symints example_h const_ops \<lparr>data = 3\<rparr> example_sym
          example_state))))"
    using example_h_concrete_small(3) by (simp add: example_normalize_left)
  from 1 2 3 show ?thesis by blast
qed

text \<open>
  C2, as amended. Take a concrete operand and a symbolic operand that refers to a node,
  in either order, and let \<^verbatim>\<open>wrap\<close>, called on that node with the concrete operand's
  raw integer, return a node. Then every binary operator (\<^verbatim>\<open>+\<close>, \<^verbatim>\<open>-\<close>, \<^verbatim>\<open>*\<close>, \<^verbatim>\<open>/\<close>,
  \<^verbatim>\<open>%\<close>, \<^verbatim>\<open>==\<close>, \<^verbatim>\<open>!=\<close>, \<^verbatim>\<open><\<close>, \<^verbatim>\<open><=\<close>, \<^verbatim>\<open>>\<close>, \<^verbatim>\<open>>=\<close>) makes exactly that call
  of \<^verbatim>\<open>wrap\<close>, and the handle it returns takes the concrete operand's place in the one
  node operation that follows (and \<^verbatim>\<open>bool_\<close> after it for a comparison). Nothing is
  committed for the concrete operand: the statement \<^verbatim>\<open>a_.toSymInt(a)\<close> leaves the state
  as it was, and after the operation every reference count is what it was before, but
  for the one unit that the result of an arithmetic operator owns. The operands are
  passed by value and the same holds in every state, so the concrete operand is still
  concrete and a later operation wraps it anew. Only \<^verbatim>\<open>*=\<close> changes an operand: the
  product takes the place of its receiver.
\<close>

theorem mixed_operands_commit_nothing:
  assumes "\<not> is_symbolic H c" and "is_symbolic H s"
    and "toSymIntNodeImplUnowned H s = p" and "p \<noteq> nullptr"
    and "node_wrap ops p (data c) (graph st) = (Inr h, g)" and "h \<noteq> nullptr"
    and "is_symbolic H (SymInt_unchecked ((h AND NOT (MASK H)) OR IS_SYM H))"
    and "toSymIntNodeImplUnowned H (SymInt_unchecked ((h AND NOT (MASK H)) OR IS_SYM H)) = h"
  shows "discarded_toSymInt H h st = (Inr (), st) \<and>
    (\<forall>(f, m) \<in> set [(operator_add, M_add), (operator_sub, M_sub), (operator_mul, M_mul),
                      (operator_div, M_floordiv), (operator_mod, M_mod)].
       f H ops c s st =
         (case node_binary ops m h p g of
            (Inl e, g') \<Rightarrow>
              (Inl e, st\<lparr>graph := g',
                         calls := calls st @ [Call_wrap p (data c), Call_binary m h p]\<rparr>)
          | (Inr k, g') \<Rightarrow>
              (Inr (SymInt_unchecked ((k AND NOT (MASK H)) OR IS_SYM H)),
               retain k (st\<lparr>graph := g',
                           calls := calls st @ [Call_wrap p (data c), Call_binary m h p]\<rparr>))) \<and>
       f H ops s c st =
         (case node_binary ops m p h g of
            (Inl e, g') \<Rightarrow>
              (Inl e, st\<lparr>graph := g',
                         calls := calls st @ [Call_wrap p (data c), Call_binary m p h]\<rparr>)
          | (Inr k, g') \<Rightarrow>
              (Inr (SymInt_unchecked ((k AND NOT (MASK H)) OR IS_SYM H)),
               retain k (st\<lparr>graph := g',
                           calls := calls st @ [Call_wrap p (data c), Call_binary m p h]\<rparr>)))) \<and>
    (\<forall>(f, m, post) \<in> set [(operator_eq, M_eq, id), (operator_ne, M_eq, Not),
                            (operator_lt, M_lt, id), (operator_le, M_le, id),
                            (operator_gt, M_gt, id), (operator_ge, M_ge, id)].
       f H ops c s st =
         (case node_binary ops m h p g of
            (Inl e, g') \<Rightarrow>
              (Inl e, st\<lparr>graph := g',
                         calls := calls st @ [Call_wrap p (data c), Call_binary m h p]\<rparr>)
          | (Inr k, g') \<Rightarrow>
              if k = nullptr
              then (Inl NullDereference,
                    st\<lparr>graph := g',
                       calls := calls st @ [Call_wrap p (data c), Call_binary m h p]\<rparr>)
              else (map_sum id post (fst (node_bool ops k g')),
                    st\<lparr>graph := snd (node_bool ops k g'),
                       calls := calls st @
                         [Call_wrap p (data c), Call_binary m h p, Call_bool k]\<rparr>)) \<and>
       f H ops s c st =
         (case node_binary ops m p h g of
            (Inl e, g') \<Rightarrow>
              (Inl e, st\<lparr>graph := g',
                         calls := calls st @ [Call_wrap p (data c), Call_binary m p h]\<rparr>)
          | (Inr k, g') \<Rightarrow>
              if k = nullptr
              then (Inl NullDereference,
                    st\<lparr>graph := g',
                       calls := calls st @ [Call_wrap p (data c), Call_binary m p h]\<rparr>)
              else (map_sum id post (fst (node_bool ops k g')),
                    st\<lparr>graph := snd (node_bool ops k g'),
                       calls := calls st @
                         [Call_wrap p (data c), Call_binary m p h, Call_bool k]\<rparr>))) \<and>
    operator_mul_assign H ops c s st = operator_mul H ops c s st \<and>
    operator_mul_assign H ops s c st =
      (case operator_mul H ops s c st of
         (Inl e, st') \<Rightarrow> (Inl e, st')
       | (Inr product, st') \<Rightarrow> (Inr product, release p st'))"
proof -
  note al = symbolic_arith_left [OF assms(1-5) assms(7,8) assms(6)]
  note ar = symbolic_arith_right [OF assms(1-5) assms(7,8)]
  note cl = symbolic_compare_left [OF assms(1-5) assms(7,8) assms(6)]
  note cr = symbolic_compare_right [OF assms(1-5) assms(7,8)]
  have d: "discarded_toSymInt H h st = (Inr (), st)"
    by (rule discarded_toSymInt_no_effect [OF assms(7,8)])
  have o: "operator_add H ops c s st = symbolic_arith H ops M_add c s st"
    "operator_add H ops s c st = symbolic_arith H ops M_add s c st"
    "operator_sub H ops c s st = symbolic_arith H ops M_sub c s st"
    "operator_sub H ops s c st = symbolic_arith H ops M_sub s c st"
    "operator_mul H ops c s st = symbolic_arith H ops M_mul c s st"
    "operator_mul H ops s c st = symbolic_arith H ops M_mul s c st"
    "operator_div H ops c s st = symbolic_arith H ops M_floordiv c s st"
    "operator_div H ops s c st = symbolic_arith H ops M_floordiv s c st"
    "operator_mod H ops c s st = symbolic_arith H ops M_mod c s st"
    "operator_mod H ops s c st = symbolic_arith H ops M_mod s c st"
    using assms(1,2)
    by (simp_all add: operator_add_def operator_sub_def operator_mul_def operator_div_def
        operator_mod_def)
  have q: "operator_eq H ops c s st = symbolic_compare H ops M_eq c s st"
    "operator_eq H ops s c st = symbolic_compare H ops M_eq s c st"
    "operator_lt H ops c s st = symbolic_compare H ops M_lt c s st"
    "operator_lt H ops s c st = symbolic_compare H ops M_lt s c st"
    "operator_le H ops c s st = symbolic_compare H ops M_le c s st"
    "operator_le H ops s c st = symbolic_compare H ops M_le s c st"
    "operator_gt H ops c s st = symbolic_compare H ops M_gt c s st"
    "operator_gt H ops s c st = symbolic_compare H ops M_gt s c st"
    "operator_ge H ops c s st = symbolic_compare H ops M_ge c s st"
    "operator_ge H ops s c st = symbolic_compare H ops M_ge s c st"
    using assms(1,2)
    by (simp_all add: operator_eq_def operator_lt_def operator_le_def operator_gt_def
        operator_ge_def)
  have A: "\<forall>(f, m) \<in> set [(operator_add, M_add), (operator_sub, M_sub), (operator_mul, M_mul),
                      (operator_div, M_floordiv), (operator_mod, M_mod)].
       f H ops c s st =
         (case node_binary ops m h p g of
            (Inl e, g') \<Rightarrow>
              (Inl e, st\<lparr>graph := g',
                         calls := calls st @ [Call_wrap p (data c), Call_binary m h p]\<rparr>)
          | (Inr k, g') \<Rightarrow>
              (Inr (SymInt_unchecked ((k AND NOT (MASK H)) OR IS_SYM H)),
               retain k (st\<lparr>graph := g',
                           calls := calls st @ [Call_wrap p (data c), Call_binary m h p]\<rparr>))) \<and>
       f H ops s c st =
         (case node_binary ops m p h g of
            (Inl e, g') \<Rightarrow>
              (Inl e, st\<lparr>graph := g',
                         calls := calls st @ [Call_wrap p (data c), Call_binary m p h]\<rparr>)
          | (Inr k, g') \<Rightarrow>
              (Inr (SymInt_unchecked ((k AND NOT (MASK H)) OR IS_SYM H)),
               retain k (st\<lparr>graph := g',
                           calls := calls st @ [Call_wrap p (data c), Call_binary m p h]\<rparr>)))"
    by (simp only: list.set ball_simps prod.case o al ar simp_thms)
  have C: "\<forall>(f, m, post) \<in> set [(operator_eq, M_eq, id), (operator_ne, M_eq, Not),
                            (operator_lt, M_lt, id), (operator_le, M_le, id),
                            (operator_gt, M_gt, id), (operator_ge, M_ge, id)].
       f H ops c s st =
         (case node_binary ops m h p g of
            (Inl e, g') \<Rightarrow>
              (Inl e, st\<lparr>graph := g',
                         calls := calls st @ [Call_wrap p (data c), Call_binary m h p]\<rparr>)
          | (Inr k, g') \<Rightarrow>
              if k = nullptr
              then (Inl NullDereference,
                    st\<lparr>graph := g',
                       calls := calls st @ [Call_wrap p (data c), Call_binary m h p]\<rparr>)
              else (map_sum id post (fst (node_bool ops k g')),
                    st\<lparr>graph := snd (node_bool ops k g'),
                       calls := calls st @
                         [Call_wrap p (data c), Call_binary m h p, Call_bool k]\<rparr>)) \<and>
       f H ops s c st =
         (case node_binary ops m p h g of
            (Inl e, g') \<Rightarrow>
              (Inl e, st\<lparr>graph := g',
                         calls := calls st @ [Call_wrap p (data c), Call_binary m p h]\<rparr>)
          | (Inr k, g') \<Rightarrow>
              if k = nullptr
              then (Inl NullDereference,
                    st\<lparr>graph := g',
                       calls := calls st @ [Call_wrap p (data c), Call_binary m p h]\<rparr>)
              else (map_sum id post (fst (node_bool ops k g')),
                    st\<lparr>graph := snd (node_bool ops k g'),
                       calls := calls st @
                         [Call_wrap p (data c), Call_binary m p h, Call_bool k]\<rparr>))"
    by (simp only: list.set ball_simps prod.case operator_ne_as_eq q cl cr negated_compare
        map_sum_id_id simp_thms)
  have m1: "operator_mul_assign H ops c s st = operator_mul H ops c s st"
    using assms(1)
    by (simp add: operator_mul_assign_def bindM_def destroy_SymInt_def split: prod.splits sum.splits)
  have m2: "operator_mul_assign H ops s c st =
      (case operator_mul H ops s c st of
         (Inl e, st') \<Rightarrow> (Inl e, st')
       | (Inr product, st') \<Rightarrow> (Inr product, release p st'))"
    using assms(2,3)
    by (simp add: operator_mul_assign_def bindM_def destroy_SymInt_def split: prod.splits sum.splits)
  show ?thesis
    by (rule conjI [OF d conjI [OF A conjI [OF C conjI [OF m1 m2]]]])
qed

theorem mixed_operands_commit_nothing_witness:
  "\<not> is_symbolic example_h \<lparr>data = 3\<rparr> \<and>
   is_symbolic example_h example_sym \<and>
   toSymIntNodeImplUnowned example_h example_sym = 0x1000 \<and>
   (0x1000 :: SymIntNode) \<noteq> nullptr \<and>
   node_wrap const_ops 0x1000 (data \<lparr>data = 3\<rparr>) (graph example_state) =
     (Inr 0x1010, [(0x1000, 5), (0x1010, 3)]) \<and>
   (0x1010 :: SymIntNode) \<noteq> nullptr \<and>
   is_symbolic example_h (SymInt_unchecked ((0x1010 AND NOT (MASK example_h)) OR IS_SYM example_h)) \<and>
   toSymIntNodeImplUnowned example_h
     (SymInt_unchecked ((0x1010 AND NOT (MASK example_h)) OR IS_SYM example_h)) = 0x1010 \<and>
   discarded_toSymInt example_h 0x1010 example_state = (Inr (), example_state) \<and>
   operator_add example_h const_ops \<lparr>data = 3\<rparr> example_sym example_state =
     (Inr \<lparr>data = 0x8000000000001020\<rparr>,
      retain 0x1020
        (example_state\<lparr>graph := [(0x1000, 5), (0x1010, 3), (0x1020, 8)],
           calls := [Call_wrap 0x1000 3, Call_binary M_add 0x1010 0x1000]\<rparr>)) \<and>
   operator_lt example_h const_ops example_sym \<lparr>data = 3\<rparr> example_state =
     (Inr False,
      example_state\<lparr>graph := [(0x1000, 5), (0x1010, 3), (0x1020, 0)],
         calls := [Call_wrap 0x1000 3, Call_binary M_lt 0x1000 0x1010, Call_bool 0x1020]\<rparr>) \<and>
   operator_mul_assign example_h const_ops \<lparr>data = 3\<rparr> example_sym example_state =
     (Inr \<lparr>data = 0x8000000000001020\<rparr>,
      retain 0x1020
        (example_state\<lparr>graph := [(0x1000, 5), (0x1010, 3), (0x1020, 15)],
           calls := [Call_wrap 0x1000 3, Call_binary M_mul 0x1010 0x1000]\<rparr>)) \<and>
   operator_lt example_h const_ops example_sym \<lparr>data = 3\<rparr>
     (example_state\<lparr>graph := [(0x1000, 5), (0x1010, 3), (0x1020, 0)],
        calls := [Call_wrap 0x1000 3, Call_binary M_lt 0x1000 0x1010, Call_bool 0x1020]\<rparr>) =
     (Inr False,
      example_state\<lparr>graph := [(0x1000, 5), (0x1010, 3), (0x1020, 0), (0x1030, 3), (0x1040, 0)],
         calls := [Call_wrap 0x1000 3, Call_binary M_lt 0x1000 0x1010, Call_bool 0x1020,
                   Call_wrap 0x1000 3, Call_binary M_lt 0x1000 0x1030, Call_bool 0x1040]\<rparr>)"
proof -
  have c: "\<not> is_symbolic example_h \<lparr>data = 3\<rparr>" by (rule example_h_concrete_small(3))
  have n: "(0x1000 :: SymIntNode) \<noteq> nullptr" "(0x1010 :: SymIntNode) \<noteq> nullptr"
    by (simp_all add: nullptr_def)
  have w: "node_wrap const_ops 0x1000 (data \<lparr>data = 3\<rparr>) (graph example_state) =
      (Inr 0x1010, [(0x1000, 5), (0x1010, 3)])"
    by (simp add: example_wrap)
  have t1: "is_symbolic example_h
      (SymInt_unchecked ((0x1010 AND NOT (MASK example_h)) OR IS_SYM example_h))"
    by (simp add: SymInt_unchecked_def is_symbolic_def example_h_def)
  have t2: "toSymIntNodeImplUnowned example_h
      (SymInt_unchecked ((0x1010 AND NOT (MASK example_h)) OR IS_SYM example_h)) = 0x1010"
    by (simp add: SymInt_unchecked_def example_h_def)
  note T = mixed_operands_commit_nothing
    [OF c example_sym_symbolic example_sym_node n(1) w n(2) t1 t2]
  have k: "calls example_state = []" by (simp add: example_state_def)
  have d: "discarded_toSymInt example_h 0x1010 example_state = (Inr (), example_state)"
    using T by simp
  have a: "operator_add example_h const_ops \<lparr>data = 3\<rparr> example_sym example_state =
     (Inr \<lparr>data = 0x8000000000001020\<rparr>,
      retain 0x1020
        (example_state\<lparr>graph := [(0x1000, 5), (0x1010, 3), (0x1020, 8)],
           calls := [Call_wrap 0x1000 3, Call_binary M_add 0x1010 0x1000]\<rparr>))"
    using T by (simp add: example_binary example_tagged k)
  have l: "operator_lt example_h const_ops example_sym \<lparr>data = 3\<rparr> example_state =
     (Inr False,
      example_state\<lparr>graph := [(0x1000, 5), (0x1010, 3), (0x1020, 0)],
         calls := [Call_wrap 0x1000 3, Call_binary M_lt 0x1000 0x1010, Call_bool 0x1020]\<rparr>)"
    using T by (simp add: example_binary nullptr_def k)
  have m: "operator_mul_assign example_h const_ops \<lparr>data = 3\<rparr> example_sym example_state =
     (Inr \<lparr>data = 0x8000000000001020\<rparr>,
      retain 0x1020
        (example_state\<lparr>graph := [(0x1000, 5), (0x1010, 3), (0x1020, 15)],
           calls := [Call_wrap 0x1000 3, Call_binary M_mul 0x1010 0x1000]\<rparr>))"
    using T by (simp add: example_binary example_tagged k)
  have n3: "(0x1030 :: SymIntNode) \<noteq> nullptr" by (simp add: nullptr_def)
  have w3: "node_wrap const_ops 0x1000 (data \<lparr>data = 3\<rparr>)
      (graph (example_state\<lparr>graph := [(0x1000, 5), (0x1010, 3), (0x1020, 0)],
        calls := [Call_wrap 0x1000 3, Call_binary M_lt 0x1000 0x1010, Call_bool 0x1020]\<rparr>)) =
      (Inr 0x1030, [(0x1000, 5), (0x1010, 3), (0x1020, 0), (0x1030, 3)])"
    by (simp add: example_later_use)
  have t3: "is_symbolic example_h
      (SymInt_unchecked ((0x1030 AND NOT (MASK example_h)) OR IS_SYM example_h))"
    by (simp add: SymInt_unchecked_def is_symbolic_def example_h_def)
  have t4: "toSymIntNodeImplUnowned example_h
      (SymInt_unchecked ((0x1030 AND NOT (MASK example_h)) OR IS_SYM example_h)) = 0x1030"
    by (simp add: SymInt_unchecked_def example_h_def)
  note T' = mixed_operands_commit_nothing
    [OF c example_sym_symbolic example_sym_node n(1) w3 n3 t3 t4]
  have l': "operator_lt example_h const_ops example_sym \<lparr>data = 3\<rparr>
     (example_state\<lparr>graph := [(0x1000, 5), (0x1010, 3), (0x1020, 0)],
        calls := [Call_wrap 0x1000 3, Call_binary M_lt 0x1000 0x1010, Call_bool 0x1020]\<rparr>) =
     (Inr False,
      example_state\<lparr>graph := [(0x1000, 5), (0x1010, 3), (0x1020, 0), (0x1030, 3), (0x1040, 0)],
         calls := [Call_wrap 0x1000 3, Call_binary M_lt 0x1000 0x1010, Call_bool 0x1020,
                   Call_wrap 0x1000 3, Call_binary M_lt 0x1000 0x1030, Call_bool 0x1040]\<rparr>)"
    using T' by (simp add: example_later_use nullptr_def)
  show ?thesis
    by (intro conjI c example_sym_symbolic example_sym_node n w t1 t2 d a l m l')
qed

end
